theory Spec2Isabelle
  imports Main "HOL-Library.Sublist" "HOL-Library.Word"
begin

section \<open>The data model of \<open>src/index.ts\<close>\<close>

text \<open>
  The repository is one projen project type, \<open>RemixAppProject\<close>. Its constructor
  resolves eight optional settings against defaults, reads one environment variable and
  one file-existence check, and registers files, git-ignore patterns, dependencies and
  tasks with the host framework (projen). The host framework is not part of the
  repository: each registration call is recorded, in call order, in a log field of the
  project record, starting from empty logs when the super constructor returns.
\<close>

datatype RemixDeploymentProvider = EXPRESS | VERCEL

text \<open>
  \<open>RemixAppProjectOptions\<close>: every field is optional (\<open>?:\<close>); \<open>None\<close> stands for
  \<open>undefined\<close> (or \<open>null\<close>), the only values the \<open>??\<close> operator replaces.
  The field \<open>depolymentProvider\<close> is spelled as in the source.
  \<open>devServerPort\<close> is a JavaScript number; the embedding covers its integer values.
\<close>

record RemixAppProjectOptions =
  remixVersion :: "string option"
  depolymentProvider :: "RemixDeploymentProvider option"
  appDirectory :: "string option"
  browserBuildDirectory :: "string option"
  publicPath :: "string option"
  serverBuildDirectory :: "string option"
  devServerPort :: "int option"
  tailwind :: "bool option"

text \<open>
  \<open>RemixConfigFileOptions\<close>: the layout the configuration file is rendered from. The
  type \<open>'n\<close> of \<open>devServerPort\<close> stands for the JavaScript number; the constructor
  passes the resolved port.
\<close>

record 'n RemixConfigFileOptions =
  appDirectory :: string
  browserBuildDirectory :: string
  publicPath :: string
  serverBuildDirectory :: string
  devServerPort :: 'n

record TextFileOptions =
  committed :: bool
  readonly :: bool
  lines :: "string list"

text \<open>
  The files the constructor creates: a \<open>TextFile\<close> (path and options), the
  \<open>Pm2ConfigFile\<close> (its path is fixed by its constructor) and the
  \<open>RemixConfigFile\<close> (path and the options it keeps).
\<close>

datatype FileBase =
  TextFile string TextFileOptions
  | Pm2ConfigFile
  | RemixConfigFile string "int RemixConfigFileOptions"

fun filePath :: "FileBase \<Rightarrow> string" where
  "filePath (TextFile p _) = p"
| "filePath Pm2ConfigFile = ''pm2.config.js''"
| "filePath (RemixConfigFile p _) = p"

datatype TaskCategory = BUILD | RELEASE

record TaskOptions =
  description :: string
  category :: TaskCategory
  exec :: string

text \<open>The one component the constructor may add: \<open>new PostCss(this, { tailwind })\<close>.\<close>

datatype Component = PostCss bool

text \<open>The one error the constructor throws: \<open>new Error(message)\<close>.\<close>

datatype JsError = Error string

text \<open>
  \<open>RemixAppProject\<close>: the public read-only fields of the class, then the
  registration logs of the host framework.
\<close>

record RemixAppProject =
  deploymentProvider :: RemixDeploymentProvider
  appDirectory :: string
  browserBuildDirectory :: string
  publicPath :: string
  serverBuildDirectory :: string
  devServerPort :: int
  tailwind :: bool
  remixVersion :: string
  remixConfigFile :: FileBase
  files :: "FileBase list"
  gitignore :: "string list"
  deps :: "string list"
  devDeps :: "string list"
  tasks :: "(string \<times> TaskOptions) list"
  components :: "Component list"

section \<open>The host framework's registration calls\<close>

definition newFile :: "RemixAppProject \<Rightarrow> FileBase \<Rightarrow> RemixAppProject" where
  "newFile this f = this\<lparr>files := files this @ [f]\<rparr>"

definition gitignore_exclude :: "RemixAppProject \<Rightarrow> string list \<Rightarrow> RemixAppProject" where
  "gitignore_exclude this patterns = this\<lparr>gitignore := gitignore this @ patterns\<rparr>"

definition addDeps :: "RemixAppProject \<Rightarrow> string list \<Rightarrow> RemixAppProject" where
  "addDeps this ds = this\<lparr>deps := deps this @ ds\<rparr>"

definition addDevDeps :: "RemixAppProject \<Rightarrow> string list \<Rightarrow> RemixAppProject" where
  "addDevDeps this ds = this\<lparr>devDeps := devDeps this @ ds\<rparr>"

definition addTask :: "RemixAppProject \<Rightarrow> string \<Rightarrow> TaskOptions \<Rightarrow> RemixAppProject" where
  "addTask this name opts = this\<lparr>tasks := tasks this @ [(name, opts)]\<rparr>"

definition newComponent :: "RemixAppProject \<Rightarrow> Component \<Rightarrow> RemixAppProject" where
  "newComponent this c = this\<lparr>components := components this @ [c]\<rparr>"

section \<open>The constructor\<close>

text \<open>
  \<open>addRemixDeps\<close> (lines 161-171): the framework runtime dependencies, the first three
  pinned to \<open>this.remixVersion\<close>.
\<close>

definition addRemixDeps :: "RemixAppProject \<Rightarrow> RemixAppProject" where
  "addRemixDeps this = addDeps this
     [ ''@remix-run/cli@'' @ RemixAppProject.remixVersion this,
       ''@remix-run/data@'' @ RemixAppProject.remixVersion this,
       ''@remix-run/react@'' @ RemixAppProject.remixVersion this,
       ''react'',
       ''react-dom'',
       ''react-router@^6.0.0-beta.0'',
       ''react-router-dom@^6.0.0-beta.0'' ]"

text \<open>
  The truthiness test of \<open>if (process.env.REMIX_RUN_LICENSE)\<close>: an environment
  variable is a string or undefined, and the empty string is falsy.
\<close>

fun truthy :: "string option \<Rightarrow> bool" where
  "truthy None = False"
| "truthy (Some s) = (s \<noteq> [])"

text \<open>
  A template literal's conversion of a value that is a string or undefined.
\<close>

fun interpolate :: "string option \<Rightarrow> string" where
  "interpolate None = ''undefined''"
| "interpolate (Some s) = s"

text \<open>
  The file system, as far as the constructor reads it: the set of paths that exist.
\<close>

definition existsSync :: "string set \<Rightarrow> string \<Rightarrow> bool" where
  "existsSync fs path = (path \<in> fs)"

text \<open>
  Lines 91-105, the credential bootstrap. \<open>env\<close> is \<open>process.env\<close>, \<open>fs\<close> the file
  system, and \<open>path.join('.npmrc')\<close> is \<open>.npmrc\<close>.
  The template literal of line 96 appends the variable's value to the fixed prefix.
\<close>

definition credentials ::
  "(string \<rightharpoonup> string) \<Rightarrow> string set \<Rightarrow> RemixAppProject \<Rightarrow> JsError + RemixAppProject" where
  "credentials env fs this =
     (if truthy (env ''REMIX_RUN_LICENSE'') then
        Inr (addRemixDeps (newFile this (TextFile ''.npmrc''
          \<lparr> committed = False, readonly = False,
            lines = [ ''//npm.remix.run/:_authToken='' @ interpolate (env ''REMIX_RUN_LICENSE''),
                      ''@remix-run:registry=https://npm.remix.run'' ] \<rparr>)))
      else if existsSync fs ''.npmrc'' then
        Inr (addRemixDeps this)
      else
        Inl (Error ''Environment variable REMIX_RUN_LICENSE not set''))"

text \<open>Lines 109-132, the body of \<open>if (this.deploymentProvider === EXPRESS)\<close>.\<close>

definition expressProvider :: "RemixAppProject \<Rightarrow> RemixAppProject" where
  "expressProvider this0 =
     (let this = addDeps this0
            [ ''@remix-run/express@'' @ RemixAppProject.remixVersion this0,
              ''express'', ''morgan'' ];
          this = addDevDeps this [''pm2''];
          this = newFile this Pm2ConfigFile;
          this = addTask this ''build''
            \<lparr> description = ''Builds the project'', category = BUILD,
              exec = ''remix build'' \<rparr>;
          this = addTask this ''dev''
            \<lparr> description = ''Start dev server'', category = BUILD,
              exec = ''pm2-dev pm2.config.js'' \<rparr>
      in addTask this ''start''
            \<lparr> description = ''Start server'', category = RELEASE,
              exec = ''node server.js'' \<rparr>)"

text \<open>
  Lines 134-155, the body of \<open>if (this.deploymentProvider === VERCEL)\<close>. The command
  of the \<open>start\<close> task holds two double-quoted words.
\<close>

definition vercelProvider :: "RemixAppProject \<Rightarrow> RemixAppProject" where
  \<open>vercelProvider this0 =
     (let this = addDeps this0
            [ ''@remix-run/vercel@'' @ RemixAppProject.remixVersion this0,
              ''@vercel/node@1.8.3'' ];
          this = addDevDeps this [''vercel'', ''concurrently''];
          this = addTask this ''predeploy''
            \<lparr> description = ''Builds the project'', category = BUILD,
              exec = ''remix build'' \<rparr>;
          this = addTask this ''deploy''
            \<lparr> description = ''Deploy to vercel'', category = RELEASE,
              exec = ''vercel'' \<rparr>
      in addTask this ''start''
            \<lparr> description = ''Start server'', category = RELEASE,
              exec = ''concurrently "remix run" "vercel dev"'' \<rparr>)\<close>

text \<open>
  Lines 47-89, the constructor up to the credential bootstrap: the super call leaves the
  registration logs empty, the fields are resolved with \<open>??\<close> (lines 61-78), the
  \<open>RemixConfigFile\<close> is created from the resolved layout (lines 80-86), and the two
  \<open>gitignore.exclude\<close> calls follow (lines 88-89), each with the heading and one
  pattern.
\<close>

definition initialise :: "RemixAppProjectOptions \<Rightarrow> RemixAppProject" where
  "initialise options =
     (let provider = (case depolymentProvider options of Some v \<Rightarrow> v | None \<Rightarrow> EXPRESS);
          app = (case RemixAppProjectOptions.appDirectory options of
                   Some v \<Rightarrow> v | None \<Rightarrow> ''app'');
          browser = (case RemixAppProjectOptions.browserBuildDirectory options of
                   Some v \<Rightarrow> v | None \<Rightarrow> ''public/build'');
          public = (case RemixAppProjectOptions.publicPath options of
                   Some v \<Rightarrow> v | None \<Rightarrow> ''/build/'');
          server = (case RemixAppProjectOptions.serverBuildDirectory options of
                   Some v \<Rightarrow> v | None \<Rightarrow> ''build'');
          port = (case RemixAppProjectOptions.devServerPort options of
                   Some v \<Rightarrow> v | None \<Rightarrow> 8002);
          tw = (case RemixAppProjectOptions.tailwind options of
                   Some v \<Rightarrow> v | None \<Rightarrow> False);
          version = (case RemixAppProjectOptions.remixVersion options of
                   Some v \<Rightarrow> v | None \<Rightarrow> ''0.13.1'');
          configFile = RemixConfigFile ''remix.config.js''
            \<lparr> RemixConfigFileOptions.appDirectory = app,
              RemixConfigFileOptions.browserBuildDirectory = browser,
              RemixConfigFileOptions.publicPath = public,
              RemixConfigFileOptions.serverBuildDirectory = server,
              RemixConfigFileOptions.devServerPort = port \<rparr>;
          this = \<lparr> deploymentProvider = provider,
                   RemixAppProject.appDirectory = app,
                   RemixAppProject.browserBuildDirectory = browser,
                   RemixAppProject.publicPath = public,
                   RemixAppProject.serverBuildDirectory = server,
                   RemixAppProject.devServerPort = port,
                   RemixAppProject.tailwind = tw,
                   RemixAppProject.remixVersion = version,
                   remixConfigFile = configFile,
                   files = [], gitignore = [], deps = [], devDeps = [], tasks = [],
                   components = [] \<rparr>;
          this = newFile this configFile;
          this = gitignore_exclude this
                   [''# Remix'', ''/'' @ RemixAppProject.browserBuildDirectory this]
      in gitignore_exclude this
                   [''# Remix'', ''/'' @ RemixAppProject.serverBuildDirectory this])"

text \<open>
  Lines 107-159, the constructor after the credential bootstrap: the type declarations,
  the two provider tests, one after the other, and the tailwind test.
\<close>

definition provision :: "RemixAppProject \<Rightarrow> RemixAppProject" where
  "provision this0 =
     (let this = addDevDeps this0 [''@types/react'', ''@types/react-dom''];
          this = (if deploymentProvider this = EXPRESS then expressProvider this else this);
          this = (if deploymentProvider this = VERCEL then vercelProvider this else this)
      in if RemixAppProject.tailwind this then newComponent this (PostCss True) else this)"

text \<open>
  The constructor (lines 47-160): \<open>new RemixAppProject(options)\<close> under the environment
  \<open>env\<close> and the file system \<open>fs\<close>. The throw of line 104 ends it with the error;
  otherwise the project is returned.
\<close>

definition new_RemixAppProject ::
  "(string \<rightharpoonup> string) \<Rightarrow> string set \<Rightarrow> RemixAppProjectOptions
     \<Rightarrow> JsError + RemixAppProject" where
  "new_RemixAppProject env fs options =
     (case credentials env fs (initialise options) of
        Inl e \<Rightarrow> Inl e
      | Inr this \<Rightarrow> Inr (provision this))"

section \<open>The generated framework configuration\<close>

text \<open>
  \<open>createRemixConfig\<close> (lines 230-291): the template literal, one source line per
  string, with the five substitutions between them. \<open>CHR 0x27\<close> is the single quote
  around the four string fields. The port is a number, and the template literal
  converts it with the language's number-to-string conversion, which is no code of the
  repository: it is the parameter \<open>toString\<close>, so that what is proved of the text
  holds for every number, whole or not, and for the conversion as the language
  defines it.
\<close>

definition createRemixConfig :: "('n \<Rightarrow> string) \<Rightarrow> 'n RemixConfigFileOptions \<Rightarrow> string" where
  \<open>createRemixConfig toString options =
       ''\<newline>'' @
       ''module.exports = {\<newline>'' @
       ''  /**\<newline>'' @
       ''   * The path to the "app" directory, relative to remix.config.js. Defaults to\<newline>'' @
       ''   * "app". All code in this directory is part of your app and will be compiled\<newline>'' @
       ''   * by Remix.\<newline>'' @
       ''   *\<newline>'' @
       ''   */\<newline>'' @
       ''  appDirectory: '' @ [CHR 0x27] @
       RemixConfigFileOptions.appDirectory options @
       [CHR 0x27] @ '',\<newline>'' @
       ''\<newline>'' @
       ''  /**\<newline>'' @
       ''   * A hook for defining custom routes based on your own file conventions. This\<newline>'' @
       ''   * is not required, but may be useful if you have custom/advanced routing\<newline>'' @
       ''   * requirements.\<newline>'' @
       ''   */\<newline>'' @
       ''  // routes(defineRoutes) {\<newline>'' @
       ''  //   return defineRoutes(route => {\<newline>'' @
       ''  //     route(\<newline>'' @
       ''  //       // The URL path for this route.\<newline>'' @
       ''  //       "/pages/one",\<newline>'' @
       ''  //       // The path to this route's component file, relative to "appDirectory".\<newline>'' @
       ''  //       "pages/one",\<newline>'' @
       ''  //       // Options:\<newline>'' @
       ''  //       {\<newline>'' @
       ''  //         // The path to this route's data module, relative to "dataDirectory".\<newline>'' @
       ''  //         loader: "...",\<newline>'' @
       ''  //         // The path to this route's styles file, relative to "appDirectory".\<newline>'' @
       ''  //         styles: "..."\<newline>'' @
       ''  //       }\<newline>'' @
       ''  //     );\<newline>'' @
       ''  //   });\<newline>'' @
       ''  // },\<newline>'' @
       ''\<newline>'' @
       ''  /**\<newline>'' @
       ''   * The path to the browser build, relative to remix.config.js. Defaults to\<newline>'' @
       ''   * "public/build". The browser build contains all public JavaScript and CSS\<newline>'' @
       ''   * files that are created when building your routes.\<newline>'' @
       ''   */\<newline>'' @
       ''  browserBuildDirectory: '' @ [CHR 0x27] @
       RemixConfigFileOptions.browserBuildDirectory options @
       [CHR 0x27] @ '',\<newline>'' @
       ''\<newline>'' @
       ''  /**\<newline>'' @
       ''   * The URL prefix of the browser build with a trailing slash. Defaults to\<newline>'' @
       ''   * "/build/".\<newline>'' @
       ''   */\<newline>'' @
       ''  publicPath: '' @ [CHR 0x27] @
       RemixConfigFileOptions.publicPath options @
       [CHR 0x27] @ '',\<newline>'' @
       ''\<newline>'' @
       ''  /**\<newline>'' @
       ''   * The path to the server build directory, relative to remix.config.js.\<newline>'' @
       ''   * Defaults to "build". The server build is a collection of JavaScript modules\<newline>'' @
       ''   * that are created from building your routes. They are used on the server to\<newline>'' @
       ''   * generate HTML.\<newline>'' @
       ''   */\<newline>'' @
       ''  serverBuildDirectory: '' @ [CHR 0x27] @
       RemixConfigFileOptions.serverBuildDirectory options @
       [CHR 0x27] @ '',\<newline>'' @
       ''\<newline>'' @
       ''  /**\<newline>'' @
       ''   * The port to use when running "remix run". Defaults to 8002.\<newline>'' @
       ''   */\<newline>'' @
       ''  devServerPort: '' @
       toString (RemixConfigFileOptions.devServerPort options) @
       ''\<newline>'' @
       ''}; \<newline>''\<close>

text \<open>
  \<open>synthesizeContent\<close> of \<open>RemixConfigFile\<close> (lines 225-227), from the options the
  file keeps.
\<close>

definition RemixConfigFile_synthesizeContent ::
  "('n \<Rightarrow> string) \<Rightarrow> 'n RemixConfigFileOptions \<Rightarrow> string option" where
  "RemixConfigFile_synthesizeContent toString options =
     Some (createRemixConfig toString options)"

text \<open>
  \<open>synthesizeContent\<close> of \<open>Pm2ConfigFile\<close> (lines 178-204): the fixed text, one
  source line per string; the last line is the four spaces before the closing backquote.
\<close>

definition Pm2ConfigFile_synthesizeContent :: "string option" where
  \<open>Pm2ConfigFile_synthesizeContent = Some (
       ''\<newline>'' @
       ''module.exports = {\<newline>'' @
       ''  apps: [\<newline>'' @
       ''    {\<newline>'' @
       ''      name: "Express",\<newline>'' @
       ''      script: "server.js",\<newline>'' @
       ''      watch: ["remix.config.js", "app"],\<newline>'' @
       ''      watch_options: {\<newline>'' @
       ''        followSymlinks: false,\<newline>'' @
       ''      },\<newline>'' @
       ''      env: {\<newline>'' @
       ''        NODE_ENV: "development",\<newline>'' @
       ''      },\<newline>'' @
       ''    },\<newline>'' @
       ''    {\<newline>'' @
       ''      name: "Remix",\<newline>'' @
       ''      script: "remix run",\<newline>'' @
       ''      ignore_watch: ["."],\<newline>'' @
       ''      env: {\<newline>'' @
       ''        NODE_ENV: "development",\<newline>'' @
       ''      },\<newline>'' @
       ''    },\<newline>'' @
       ''  ],\<newline>'' @
       ''};\<newline>'' @
       ''    '')\<close>

text \<open>
  The decimal digits of a natural number, and the number-to-string conversion on the
  whole numbers from 0 to 65535, the range of a port: there the language prints the
  decimal digits.
\<close>

function decimal :: "nat \<Rightarrow> string" where
  "decimal n =
     (if n < 10 then [''0123456789'' ! n]
      else decimal (n div 10) @ [''0123456789'' ! (n mod 10)])"
  by pat_completeness auto
termination
  by (relation "measure id") auto

declare decimal.simps [simp del]

definition portToString :: "16 word \<Rightarrow> string" where
  "portToString port = decimal (unat port)"

text \<open>An options object that supplies none of the eight fields.\<close>

definition noOptions :: RemixAppProjectOptions where
  "noOptions =
     \<lparr> RemixAppProjectOptions.remixVersion = None, depolymentProvider = None,
       RemixAppProjectOptions.appDirectory = None,
       RemixAppProjectOptions.browserBuildDirectory = None,
       RemixAppProjectOptions.publicPath = None,
       RemixAppProjectOptions.serverBuildDirectory = None,
       RemixAppProjectOptions.devServerPort = None,
       RemixAppProjectOptions.tailwind = None \<rparr>"

text \<open>
  A git-ignore pattern that starts with \<open>#\<close> is a comment line (the heading
  \<open># Remix\<close> of lines 88-89); the entries of a pattern list are its other lines.
\<close>

definition isComment :: "string \<Rightarrow> bool" where
  "isComment pattern = (case pattern of [] \<Rightarrow> False | c # _ \<Rightarrow> c = CHR ''#'')"

definition ignoreEntries :: "string list \<Rightarrow> string list" where
  "ignoreEntries patterns = filter (\<lambda>p. \<not> isComment p) patterns"

section \<open>What each part of the constructor registers\<close>

text \<open>
  Each host call changes one log by one function of its old value; in this form the
  calls of a long sequence do not copy the project term.
\<close>

lemma host_upd:
  "newFile this f = files_update (\<lambda>xs. xs @ [f]) this"
  "gitignore_exclude this patterns = gitignore_update (\<lambda>xs. xs @ patterns) this"
  "addDeps this ds = deps_update (\<lambda>xs. xs @ ds) this"
  "addDevDeps this ds = devDeps_update (\<lambda>xs. xs @ ds) this"
  "addTask this name opts = tasks_update (\<lambda>xs. xs @ [(name, opts)]) this"
  "newComponent this c = components_update (\<lambda>xs. xs @ [c]) this"
  by (simp_all add: newFile_def gitignore_exclude_def addDeps_def addDevDeps_def addTask_def
      newComponent_def)

text \<open>When the constructor throws, and what it returns when it does not.\<close>

lemma new_Inl_iff:
  "new_RemixAppProject env fs options = Inl e \<longleftrightarrow>
     \<not> truthy (env ''REMIX_RUN_LICENSE'') \<and> ''.npmrc'' \<notin> fs \<and>
     e = Error ''Environment variable REMIX_RUN_LICENSE not set''"
  by (auto simp: new_RemixAppProject_def credentials_def existsSync_def)

lemma new_Inr_iff:
  "new_RemixAppProject env fs options = Inr this \<longleftrightarrow>
     (truthy (env ''REMIX_RUN_LICENSE'') \<or> ''.npmrc'' \<in> fs) \<and>
     this = provision (addRemixDeps
       (if truthy (env ''REMIX_RUN_LICENSE'') then
          newFile (initialise options) (TextFile ''.npmrc''
            \<lparr> committed = False, readonly = False,
              lines = [ ''//npm.remix.run/:_authToken='' @ interpolate (env ''REMIX_RUN_LICENSE''),
                        ''@remix-run:registry=https://npm.remix.run'' ] \<rparr>)
        else initialise options))"
  by (auto simp: new_RemixAppProject_def credentials_def existsSync_def)

lemma new_Inr_ex:
  "truthy (env ''REMIX_RUN_LICENSE'') \<or> ''.npmrc'' \<in> fs \<Longrightarrow>
     \<exists>this. new_RemixAppProject env fs options = Inr this"
  by (simp add: new_Inr_iff)

text \<open>The project when line 91 is reached.\<close>

lemma initialise_sel:
  "deploymentProvider (initialise options) =
     (case depolymentProvider options of Some v \<Rightarrow> v | None \<Rightarrow> EXPRESS)"
  "RemixAppProject.appDirectory (initialise options) =
     (case RemixAppProjectOptions.appDirectory options of Some v \<Rightarrow> v | None \<Rightarrow> ''app'')"
  "RemixAppProject.browserBuildDirectory (initialise options) =
     (case RemixAppProjectOptions.browserBuildDirectory options of
        Some v \<Rightarrow> v | None \<Rightarrow> ''public/build'')"
  "RemixAppProject.publicPath (initialise options) =
     (case RemixAppProjectOptions.publicPath options of Some v \<Rightarrow> v | None \<Rightarrow> ''/build/'')"
  "RemixAppProject.serverBuildDirectory (initialise options) =
     (case RemixAppProjectOptions.serverBuildDirectory options of
        Some v \<Rightarrow> v | None \<Rightarrow> ''build'')"
  "RemixAppProject.devServerPort (initialise options) =
     (case RemixAppProjectOptions.devServerPort options of Some v \<Rightarrow> v | None \<Rightarrow> 8002)"
  "RemixAppProject.tailwind (initialise options) =
     (case RemixAppProjectOptions.tailwind options of Some v \<Rightarrow> v | None \<Rightarrow> False)"
  "RemixAppProject.remixVersion (initialise options) =
     (case RemixAppProjectOptions.remixVersion options of Some v \<Rightarrow> v | None \<Rightarrow> ''0.13.1'')"
  "deps (initialise options) = []"
  "devDeps (initialise options) = []"
  "tasks (initialise options) = []"
  "components (initialise options) = []"
  by (simp_all add: initialise_def Let_def host_upd)

lemma initialise_files:
  "files (initialise options) = [remixConfigFile (initialise options)]"
  "remixConfigFile (initialise options) = RemixConfigFile ''remix.config.js''
     \<lparr> RemixConfigFileOptions.appDirectory = RemixAppProject.appDirectory (initialise options),
       RemixConfigFileOptions.browserBuildDirectory =
         RemixAppProject.browserBuildDirectory (initialise options),
       RemixConfigFileOptions.publicPath = RemixAppProject.publicPath (initialise options),
       RemixConfigFileOptions.serverBuildDirectory =
         RemixAppProject.serverBuildDirectory (initialise options),
       RemixConfigFileOptions.devServerPort =
         RemixAppProject.devServerPort (initialise options) \<rparr>"
  by (simp_all add: initialise_def Let_def host_upd)

lemma initialise_gitignore:
  "gitignore (initialise options) =
     [ ''# Remix'', ''/'' @ RemixAppProject.browserBuildDirectory (initialise options),
       ''# Remix'', ''/'' @ RemixAppProject.serverBuildDirectory (initialise options) ]"
  by (simp add: initialise_def Let_def host_upd)

text \<open>Lines 107-159, log by log.\<close>

lemma provision_sel:
  "deploymentProvider (provision t) = deploymentProvider t"
  "RemixAppProject.appDirectory (provision t) = RemixAppProject.appDirectory t"
  "RemixAppProject.browserBuildDirectory (provision t) = RemixAppProject.browserBuildDirectory t"
  "RemixAppProject.publicPath (provision t) = RemixAppProject.publicPath t"
  "RemixAppProject.serverBuildDirectory (provision t) = RemixAppProject.serverBuildDirectory t"
  "RemixAppProject.devServerPort (provision t) = RemixAppProject.devServerPort t"
  "RemixAppProject.tailwind (provision t) = RemixAppProject.tailwind t"
  "RemixAppProject.remixVersion (provision t) = RemixAppProject.remixVersion t"
  "remixConfigFile (provision t) = remixConfigFile t"
  "gitignore (provision t) = gitignore t"
  by (simp_all add: provision_def expressProvider_def vercelProvider_def Let_def host_upd)

lemma provision_tasks:
  \<open>tasks (provision t) = tasks t @
     (if deploymentProvider t = EXPRESS then
        [ (''build'', \<lparr> description = ''Builds the project'', category = BUILD,
             exec = ''remix build'' \<rparr>),
          (''dev'', \<lparr> description = ''Start dev server'', category = BUILD,
             exec = ''pm2-dev pm2.config.js'' \<rparr>),
          (''start'', \<lparr> description = ''Start server'', category = RELEASE,
             exec = ''node server.js'' \<rparr>) ]
      else
        [ (''predeploy'', \<lparr> description = ''Builds the project'', category = BUILD,
             exec = ''remix build'' \<rparr>),
          (''deploy'', \<lparr> description = ''Deploy to vercel'', category = RELEASE,
             exec = ''vercel'' \<rparr>),
          (''start'', \<lparr> description = ''Start server'', category = RELEASE,
             exec = ''concurrently "remix run" "vercel dev"'' \<rparr>) ])\<close>
  by (cases "deploymentProvider t")
    (simp_all add: provision_def expressProvider_def vercelProvider_def Let_def host_upd)

lemma provision_deps:
  "deps (provision t) = deps t @
     (if deploymentProvider t = EXPRESS then
        [''@remix-run/express@'' @ RemixAppProject.remixVersion t, ''express'', ''morgan'']
      else
        [''@remix-run/vercel@'' @ RemixAppProject.remixVersion t, ''@vercel/node@1.8.3''])"
  by (cases "deploymentProvider t")
    (simp_all add: provision_def expressProvider_def vercelProvider_def Let_def host_upd)

lemma provision_devDeps:
  "devDeps (provision t) = devDeps t @ [''@types/react'', ''@types/react-dom''] @
     (if deploymentProvider t = EXPRESS then [''pm2''] else [''vercel'', ''concurrently''])"
  by (cases "deploymentProvider t")
    (simp_all add: provision_def expressProvider_def vercelProvider_def Let_def host_upd)

lemma provision_files:
  "files (provision t) = files t @
     (if deploymentProvider t = EXPRESS then [Pm2ConfigFile] else [])"
  by (cases "deploymentProvider t")
    (simp_all add: provision_def expressProvider_def vercelProvider_def Let_def host_upd)

lemma provision_components:
  "components (provision t) = components t @
     (if RemixAppProject.tailwind t then [PostCss True] else [])"
  by (cases "deploymentProvider t")
    (simp_all add: provision_def expressProvider_def vercelProvider_def Let_def host_upd)

lemma addRemixDeps_sel:
  "deploymentProvider (addRemixDeps t) = deploymentProvider t"
  "RemixAppProject.appDirectory (addRemixDeps t) = RemixAppProject.appDirectory t"
  "RemixAppProject.browserBuildDirectory (addRemixDeps t) =
     RemixAppProject.browserBuildDirectory t"
  "RemixAppProject.publicPath (addRemixDeps t) = RemixAppProject.publicPath t"
  "RemixAppProject.serverBuildDirectory (addRemixDeps t) =
     RemixAppProject.serverBuildDirectory t"
  "RemixAppProject.devServerPort (addRemixDeps t) = RemixAppProject.devServerPort t"
  "RemixAppProject.tailwind (addRemixDeps t) = RemixAppProject.tailwind t"
  "RemixAppProject.remixVersion (addRemixDeps t) = RemixAppProject.remixVersion t"
  "remixConfigFile (addRemixDeps t) = remixConfigFile t"
  "gitignore (addRemixDeps t) = gitignore t"
  "files (addRemixDeps t) = files t"
  "devDeps (addRemixDeps t) = devDeps t"
  "tasks (addRemixDeps t) = tasks t"
  "components (addRemixDeps t) = components t"
  by (simp_all add: addRemixDeps_def host_upd)

lemma addRemixDeps_deps:
  "deps (addRemixDeps t) = deps t @
     [ ''@remix-run/cli@'' @ RemixAppProject.remixVersion t,
       ''@remix-run/data@'' @ RemixAppProject.remixVersion t,
       ''@remix-run/react@'' @ RemixAppProject.remixVersion t,
       ''react'', ''react-dom'', ''react-router@^6.0.0-beta.0'',
       ''react-router-dom@^6.0.0-beta.0'' ]"
  by (simp add: addRemixDeps_def host_upd)

lemma newFile_sel:
  "deploymentProvider (newFile t f) = deploymentProvider t"
  "RemixAppProject.appDirectory (newFile t f) = RemixAppProject.appDirectory t"
  "RemixAppProject.browserBuildDirectory (newFile t f) = RemixAppProject.browserBuildDirectory t"
  "RemixAppProject.publicPath (newFile t f) = RemixAppProject.publicPath t"
  "RemixAppProject.serverBuildDirectory (newFile t f) = RemixAppProject.serverBuildDirectory t"
  "RemixAppProject.devServerPort (newFile t f) = RemixAppProject.devServerPort t"
  "RemixAppProject.tailwind (newFile t f) = RemixAppProject.tailwind t"
  "RemixAppProject.remixVersion (newFile t f) = RemixAppProject.remixVersion t"
  "remixConfigFile (newFile t f) = remixConfigFile t"
  "gitignore (newFile t f) = gitignore t"
  "files (newFile t f) = files t @ [f]"
  "deps (newFile t f) = deps t"
  "devDeps (newFile t f) = devDeps t"
  "tasks (newFile t f) = tasks t"
  "components (newFile t f) = components t"
  by (simp_all add: host_upd)

lemmas phase_sel = provision_sel provision_tasks provision_deps provision_devDeps
  provision_files provision_components addRemixDeps_sel addRemixDeps_deps newFile_sel
  initialise_sel

text \<open>The two branches of the credential bootstrap that do not throw.\<close>

lemma credentials_token:
  assumes "env ''REMIX_RUN_LICENSE'' = Some tok" and "tok \<noteq> []"
  shows "credentials env fs this =
     Inr (addRemixDeps (newFile this (TextFile ''.npmrc''
       \<lparr> committed = False, readonly = False,
         lines = [ ''//npm.remix.run/:_authToken='' @ tok,
                   ''@remix-run:registry=https://npm.remix.run'' ] \<rparr>)))"
  using assms by (simp add: credentials_def)

lemma credentials_file:
  assumes "\<not> truthy (env ''REMIX_RUN_LICENSE'')" and "existsSync fs ''.npmrc''"
  shows "credentials env fs this = Inr (addRemixDeps this)"
  using assms by (simp add: credentials_def)

text \<open>What the constructor returns, field by field.\<close>

lemma new_fields:
  assumes "new_RemixAppProject env fs options = Inr this"
  shows "deploymentProvider this =
           (case depolymentProvider options of Some v \<Rightarrow> v | None \<Rightarrow> EXPRESS)"
    and "RemixAppProject.appDirectory this =
           (case RemixAppProjectOptions.appDirectory options of
              Some v \<Rightarrow> v | None \<Rightarrow> ''app'')"
    and "RemixAppProject.browserBuildDirectory this =
           (case RemixAppProjectOptions.browserBuildDirectory options of
              Some v \<Rightarrow> v | None \<Rightarrow> ''public/build'')"
    and "RemixAppProject.publicPath this =
           (case RemixAppProjectOptions.publicPath options of
              Some v \<Rightarrow> v | None \<Rightarrow> ''/build/'')"
    and "RemixAppProject.serverBuildDirectory this =
           (case RemixAppProjectOptions.serverBuildDirectory options of
              Some v \<Rightarrow> v | None \<Rightarrow> ''build'')"
    and "RemixAppProject.devServerPort this =
           (case RemixAppProjectOptions.devServerPort options of
              Some v \<Rightarrow> v | None \<Rightarrow> 8002)"
    and "RemixAppProject.tailwind this =
           (case RemixAppProjectOptions.tailwind options of
              Some v \<Rightarrow> v | None \<Rightarrow> False)"
    and "RemixAppProject.remixVersion this =
           (case RemixAppProjectOptions.remixVersion options of
              Some v \<Rightarrow> v | None \<Rightarrow> ''0.13.1'')"
  using assms by (simp_all add: new_Inr_iff phase_sel)

lemma new_gitignore:
  assumes "new_RemixAppProject env fs options = Inr this"
  shows "gitignore this =
     [ ''# Remix'', ''/'' @ RemixAppProject.browserBuildDirectory this,
       ''# Remix'', ''/'' @ RemixAppProject.serverBuildDirectory this ]"
  using assms by (simp add: new_Inr_iff phase_sel initialise_gitignore)

lemma new_tasks:
  assumes "new_RemixAppProject env fs options = Inr this"
  shows \<open>tasks this =
     (if deploymentProvider this = EXPRESS then
        [ (''build'', \<lparr> description = ''Builds the project'', category = BUILD,
             exec = ''remix build'' \<rparr>),
          (''dev'', \<lparr> description = ''Start dev server'', category = BUILD,
             exec = ''pm2-dev pm2.config.js'' \<rparr>),
          (''start'', \<lparr> description = ''Start server'', category = RELEASE,
             exec = ''node server.js'' \<rparr>) ]
      else
        [ (''predeploy'', \<lparr> description = ''Builds the project'', category = BUILD,
             exec = ''remix build'' \<rparr>),
          (''deploy'', \<lparr> description = ''Deploy to vercel'', category = RELEASE,
             exec = ''vercel'' \<rparr>),
          (''start'', \<lparr> description = ''Start server'', category = RELEASE,
             exec = ''concurrently "remix run" "vercel dev"'' \<rparr>) ])\<close>
  using assms by (simp add: new_Inr_iff phase_sel)

lemma new_deps:
  assumes "new_RemixAppProject env fs options = Inr this"
  shows "deps this =
     [ ''@remix-run/cli@'' @ RemixAppProject.remixVersion this,
       ''@remix-run/data@'' @ RemixAppProject.remixVersion this,
       ''@remix-run/react@'' @ RemixAppProject.remixVersion this,
       ''react'', ''react-dom'', ''react-router@^6.0.0-beta.0'',
       ''react-router-dom@^6.0.0-beta.0'' ] @
     (if deploymentProvider this = EXPRESS then
        [''@remix-run/express@'' @ RemixAppProject.remixVersion this, ''express'', ''morgan'']
      else
        [''@remix-run/vercel@'' @ RemixAppProject.remixVersion this, ''@vercel/node@1.8.3''])"
  using assms by (simp add: new_Inr_iff phase_sel)

lemma new_devDeps:
  assumes "new_RemixAppProject env fs options = Inr this"
  shows "devDeps this = [''@types/react'', ''@types/react-dom''] @
     (if deploymentProvider this = EXPRESS then [''pm2''] else [''vercel'', ''concurrently''])"
  using assms by (simp add: new_Inr_iff phase_sel)

lemma new_files:
  assumes "new_RemixAppProject env fs options = Inr this"
  shows "files this = [remixConfigFile this] @
     (if truthy (env ''REMIX_RUN_LICENSE'') then
        [TextFile ''.npmrc''
          \<lparr> committed = False, readonly = False,
            lines = [ ''//npm.remix.run/:_authToken='' @ interpolate (env ''REMIX_RUN_LICENSE''),
                      ''@remix-run:registry=https://npm.remix.run'' ] \<rparr>]
      else []) @
     (if deploymentProvider this = EXPRESS then [Pm2ConfigFile] else [])"
  using assms by (simp add: new_Inr_iff phase_sel initialise_files)

lemma new_remixConfigFile:
  assumes "new_RemixAppProject env fs options = Inr this"
  shows "remixConfigFile this = RemixConfigFile ''remix.config.js''
     \<lparr> RemixConfigFileOptions.appDirectory = RemixAppProject.appDirectory this,
       RemixConfigFileOptions.browserBuildDirectory = RemixAppProject.browserBuildDirectory this,
       RemixConfigFileOptions.publicPath = RemixAppProject.publicPath this,
       RemixConfigFileOptions.serverBuildDirectory = RemixAppProject.serverBuildDirectory this,
       RemixConfigFileOptions.devServerPort = RemixAppProject.devServerPort this \<rparr>"
  using assms by (simp add: new_Inr_iff phase_sel initialise_files)

lemma new_synthesizeContent:
  assumes "new_RemixAppProject env fs options = Inr this"
  shows "\<exists>options. remixConfigFile this = RemixConfigFile ''remix.config.js'' options
     \<and> RemixConfigFile_synthesizeContent toString options = Some (createRemixConfig toString
     \<lparr> RemixConfigFileOptions.appDirectory = RemixAppProject.appDirectory this,
       RemixConfigFileOptions.browserBuildDirectory = RemixAppProject.browserBuildDirectory this,
       RemixConfigFileOptions.publicPath = RemixAppProject.publicPath this,
       RemixConfigFileOptions.serverBuildDirectory = RemixAppProject.serverBuildDirectory this,
       RemixConfigFileOptions.devServerPort = RemixAppProject.devServerPort this \<rparr>)"
  by (simp add: new_remixConfigFile [OF assms] RemixConfigFile_synthesizeContent_def)

text \<open>
  Finding a run of template segments in the text of \<open>createRemixConfig\<close>: skip one
  segment, or stop where the run starts.
\<close>

lemma sublist_skip: "sublist X ys \<Longrightarrow> sublist X (p @ ys)"
  by (metis append_assoc sublist_def)

lemma sublist_here5: "sublist (a @ b @ c @ d @ e) (a @ b @ c @ d @ e @ r)"
  unfolding sublist_def by (rule exI [of _ "[]"], rule exI [of _ r]) simp

lemma sublist_here3: "sublist (a @ b @ c) (a @ b @ c @ r)"
  unfolding sublist_def by (rule exI [of _ "[]"], rule exI [of _ r]) simp

lemma frame_skip:
  assumes "\<exists>pre post. \<forall>f x. F f x = pre @ l @ f x @ post"
  shows "\<exists>pre post. \<forall>f x. p @ F f x = pre @ l @ f x @ post"
proof -
  from assms obtain pre post where "\<forall>f x. F f x = pre @ l @ f x @ post" by blast
  then have "\<forall>f x. p @ F f x = (p @ pre) @ l @ f x @ post" by simp
  then show ?thesis by blast
qed

lemma frame_here: "\<exists>pre post. \<forall>f x. l @ f x @ r = pre @ l @ f x @ post"
  by (rule exI [of _ "[]"], rule exI [of _ r]) simp

text \<open>
  With the four strings fixed, the text is one prefix, the printed port and one suffix,
  whatever the conversion and the port.
\<close>

lemma createRemixConfig_frame:
  "\<exists>pre post. \<forall>toString port.
     createRemixConfig toString
       \<lparr> RemixConfigFileOptions.appDirectory = app,
         RemixConfigFileOptions.browserBuildDirectory = browser,
         RemixConfigFileOptions.publicPath = url,
         RemixConfigFileOptions.serverBuildDirectory = server,
         RemixConfigFileOptions.devServerPort = port \<rparr>
     = pre @ ''  devServerPort: '' @ toString port @ post"
  unfolding createRemixConfig_def RemixConfigFileOptions.select_convs
  by (rule frame_here | rule frame_skip)+

text \<open>Two such texts are the same exactly when the two ports print the same.\<close>

lemma createRemixConfig_port_eq:
  "(createRemixConfig toString
      \<lparr> RemixConfigFileOptions.appDirectory = app,
        RemixConfigFileOptions.browserBuildDirectory = browser,
        RemixConfigFileOptions.publicPath = url,
        RemixConfigFileOptions.serverBuildDirectory = server,
        RemixConfigFileOptions.devServerPort = p \<rparr>
    = createRemixConfig toString
      \<lparr> RemixConfigFileOptions.appDirectory = app,
        RemixConfigFileOptions.browserBuildDirectory = browser,
        RemixConfigFileOptions.publicPath = url,
        RemixConfigFileOptions.serverBuildDirectory = server,
        RemixConfigFileOptions.devServerPort = q \<rparr>)
   = (toString p = toString q)"
  unfolding createRemixConfig_def RemixConfigFileOptions.select_convs
  by (simp only: same_append_eq append_same_eq)

text \<open>
  The decimal digits tell the number, so the conversion on the ports prints different
  ports differently.
\<close>

lemma decimal_nonempty: "decimal n \<noteq> []"
  by (subst decimal.simps) simp

lemma digit_inj: "i < 10 \<Longrightarrow> j < 10 \<Longrightarrow> ''0123456789'' ! i = ''0123456789'' ! j \<Longrightarrow> i = (j::nat)"
  by (auto simp: less_Suc_eq numeral_nat nth_Cons')

lemma decimal_inj: "decimal m = decimal n \<Longrightarrow> m = n"
proof (induction m arbitrary: n rule: decimal.induct)
  case (1 m)
  show ?case
  proof (cases "m < 10")
    case True
    with "1.prems" have "n < 10"
      using decimal_nonempty [of "n div 10"]
      by (subst (asm) decimal.simps, subst (asm) (2) decimal.simps) (auto split: if_splits)
    with True "1.prems" show ?thesis
      by (subst (asm) decimal.simps, subst (asm) (2) decimal.simps) (auto dest: digit_inj)
  next
    case False
    with "1.prems" have n: "\<not> n < 10"
      using decimal_nonempty [of "m div 10"]
      by (subst (asm) decimal.simps, subst (asm) (2) decimal.simps) (auto split: if_splits)
    from False n "1.prems" have "decimal (m div 10) = decimal (n div 10)"
      and "''0123456789'' ! (m mod 10) = ''0123456789'' ! (n mod 10)"
      by (subst (asm) decimal.simps, subst (asm) (2) decimal.simps, simp)+
    then have "m div 10 = n div 10" and "m mod 10 = n mod 10"
      using "1.IH" [OF False] digit_inj [of "m mod 10" "n mod 10"] by auto
    then show ?thesis
      by (metis div_mult_mod_eq)
  qed
qed

lemma portToString_inj: "portToString p = portToString q \<Longrightarrow> p = q"
proof -
  assume "portToString p = portToString q"
  then have "unat p = unat q"
    by (simp add: portToString_def decimal_inj)
  then show "p = q"
    by (simp add: word_unat_eq_iff)
qed

section \<open>The claims\<close>

subsection \<open>C1: when construction throws\<close>

text \<open>
  C1, as amended. The constructor throws \<open>Error('Environment variable
  REMIX_RUN_LICENSE not set')\<close> if and only if the variable \<open>REMIX_RUN_LICENSE\<close>
  is unset or empty and \<open>.npmrc\<close> does not exist. It returns a project, whose first
  seven runtime dependencies are those of \<open>addRemixDeps\<close>, if and only if the
  variable is set and not empty, or \<open>.npmrc\<close> exists.
\<close>

theorem missing_credentials_iff:
  "(new_RemixAppProject env fs options =
      Inl (Error ''Environment variable REMIX_RUN_LICENSE not set'')) =
     ((env ''REMIX_RUN_LICENSE'' = None \<or> env ''REMIX_RUN_LICENSE'' = Some [])
        \<and> \<not> existsSync fs ''.npmrc'')
   \<and> (\<exists>this. new_RemixAppProject env fs options = Inr this
          \<and> take 7 (deps this) =
              [ ''@remix-run/cli@'' @ RemixAppProject.remixVersion this,
                ''@remix-run/data@'' @ RemixAppProject.remixVersion this,
                ''@remix-run/react@'' @ RemixAppProject.remixVersion this,
                ''react'', ''react-dom'', ''react-router@^6.0.0-beta.0'',
                ''react-router-dom@^6.0.0-beta.0'' ]) =
     ((\<exists>tok. env ''REMIX_RUN_LICENSE'' = Some tok \<and> tok \<noteq> []) \<or> existsSync fs ''.npmrc'')"
proof -
  have t: "truthy (env ''REMIX_RUN_LICENSE'') =
      (\<not> (env ''REMIX_RUN_LICENSE'' = None \<or> env ''REMIX_RUN_LICENSE'' = Some []))"
    by (cases "env ''REMIX_RUN_LICENSE''") simp_all
  have t': "truthy (env ''REMIX_RUN_LICENSE'') =
      (\<exists>tok. env ''REMIX_RUN_LICENSE'' = Some tok \<and> tok \<noteq> [])"
    by (cases "env ''REMIX_RUN_LICENSE''") simp_all
  have a: "(new_RemixAppProject env fs options =
      Inl (Error ''Environment variable REMIX_RUN_LICENSE not set'')) =
     ((env ''REMIX_RUN_LICENSE'' = None \<or> env ''REMIX_RUN_LICENSE'' = Some [])
        \<and> \<not> existsSync fs ''.npmrc'')"
    by (simp add: new_Inl_iff t existsSync_def)
  have c: "(\<exists>this. new_RemixAppProject env fs options = Inr this
          \<and> take 7 (deps this) =
              [ ''@remix-run/cli@'' @ RemixAppProject.remixVersion this,
                ''@remix-run/data@'' @ RemixAppProject.remixVersion this,
                ''@remix-run/react@'' @ RemixAppProject.remixVersion this,
                ''react'', ''react-dom'', ''react-router@^6.0.0-beta.0'',
                ''react-router-dom@^6.0.0-beta.0'' ]) =
     ((\<exists>tok. env ''REMIX_RUN_LICENSE'' = Some tok \<and> tok \<noteq> []) \<or> existsSync fs ''.npmrc'')"
  proof
    assume "\<exists>this. new_RemixAppProject env fs options = Inr this
          \<and> take 7 (deps this) =
              [ ''@remix-run/cli@'' @ RemixAppProject.remixVersion this,
                ''@remix-run/data@'' @ RemixAppProject.remixVersion this,
                ''@remix-run/react@'' @ RemixAppProject.remixVersion this,
                ''react'', ''react-dom'', ''react-router@^6.0.0-beta.0'',
                ''react-router-dom@^6.0.0-beta.0'' ]"
    then obtain this where "new_RemixAppProject env fs options = Inr this" by blast
    then show "(\<exists>tok. env ''REMIX_RUN_LICENSE'' = Some tok \<and> tok \<noteq> []) \<or> existsSync fs ''.npmrc''"
      by (simp add: new_Inr_iff t' existsSync_def)
  next
    assume "(\<exists>tok. env ''REMIX_RUN_LICENSE'' = Some tok \<and> tok \<noteq> []) \<or> existsSync fs ''.npmrc''"
    then have "truthy (env ''REMIX_RUN_LICENSE'') \<or> ''.npmrc'' \<in> fs"
      by (simp add: t' existsSync_def)
    then obtain this where n: "new_RemixAppProject env fs options = Inr this"
      using new_Inr_ex by blast
    from new_deps [OF n] have "take 7 (deps this) =
              [ ''@remix-run/cli@'' @ RemixAppProject.remixVersion this,
                ''@remix-run/data@'' @ RemixAppProject.remixVersion this,
                ''@remix-run/react@'' @ RemixAppProject.remixVersion this,
                ''react'', ''react-dom'', ''react-router@^6.0.0-beta.0'',
                ''react-router-dom@^6.0.0-beta.0'' ]"
      by simp
    with n show "\<exists>this. new_RemixAppProject env fs options = Inr this
          \<and> take 7 (deps this) =
              [ ''@remix-run/cli@'' @ RemixAppProject.remixVersion this,
                ''@remix-run/data@'' @ RemixAppProject.remixVersion this,
                ''@remix-run/react@'' @ RemixAppProject.remixVersion this,
                ''react'', ''react-dom'', ''react-router@^6.0.0-beta.0'',
                ''react-router-dom@^6.0.0-beta.0'' ]"
      by blast
  qed
  from a c show ?thesis by (rule conjI)
qed

text \<open>
  An instance: nothing set and no file gives the error; the file alone lets the
  constructor return.
\<close>

theorem missing_credentials_iff_witness:
  "new_RemixAppProject Map.empty {} noOptions =
     Inl (Error ''Environment variable REMIX_RUN_LICENSE not set'')
   \<and> (\<exists>this. new_RemixAppProject Map.empty {''.npmrc''} noOptions = Inr this)"
proof -
  have "new_RemixAppProject Map.empty {} noOptions =
     Inl (Error ''Environment variable REMIX_RUN_LICENSE not set'')"
    using missing_credentials_iff [of Map.empty "{}" noOptions, THEN conjunct1]
    by (simp add: existsSync_def)
  moreover have "\<exists>this. new_RemixAppProject Map.empty {''.npmrc''} noOptions = Inr this"
    by (rule new_Inr_ex) simp
  ultimately show ?thesis by (rule conjI)
qed

text \<open>
  C1 as stated fails where the variable is set to the empty string and \<open>.npmrc\<close>
  does not exist: the variable is set, and the constructor still throws.
\<close>

theorem missing_credentials_empty_token:
  "[''REMIX_RUN_LICENSE'' \<mapsto> ''''] ''REMIX_RUN_LICENSE'' \<noteq> None
   \<and> new_RemixAppProject [''REMIX_RUN_LICENSE'' \<mapsto> ''''] {} noOptions =
       Inl (Error ''Environment variable REMIX_RUN_LICENSE not set'')"
  by (simp add: new_Inl_iff)

subsection \<open>C2: the tasks of each provider\<close>

text \<open>
  C2. On every project the constructor returns: when the provider is \<open>EXPRESS\<close>
  the registered tasks are exactly \<open>build\<close> (\<open>remix build\<close>, category build),
  \<open>dev\<close> (\<open>pm2-dev pm2.config.js\<close>, category build) and \<open>start\<close>
  (\<open>node server.js\<close>, category release); when it is \<open>VERCEL\<close> they are exactly
  \<open>predeploy\<close> (\<open>remix build\<close>, category build), \<open>deploy\<close> (\<open>vercel\<close>,
  category release) and \<open>start\<close> (\<open>remix run\<close> concurrently with
  \<open>vercel dev\<close>, category release).
\<close>

theorem provider_tasks:
  assumes "new_RemixAppProject env fs options = Inr this"
  shows \<open>(deploymentProvider this = EXPRESS \<longrightarrow>
            tasks this =
              [ (''build'', \<lparr> description = ''Builds the project'', category = BUILD,
                   exec = ''remix build'' \<rparr>),
                (''dev'', \<lparr> description = ''Start dev server'', category = BUILD,
                   exec = ''pm2-dev pm2.config.js'' \<rparr>),
                (''start'', \<lparr> description = ''Start server'', category = RELEASE,
                   exec = ''node server.js'' \<rparr>) ])
       \<and> (deploymentProvider this = VERCEL \<longrightarrow>
            tasks this =
              [ (''predeploy'', \<lparr> description = ''Builds the project'', category = BUILD,
                   exec = ''remix build'' \<rparr>),
                (''deploy'', \<lparr> description = ''Deploy to vercel'', category = RELEASE,
                   exec = ''vercel'' \<rparr>),
                (''start'', \<lparr> description = ''Start server'', category = RELEASE,
                   exec = ''concurrently "remix run" "vercel dev"'' \<rparr>) ])\<close>
  using new_tasks [OF assms] by simp

text \<open>
  Both providers, each on a construction that succeeds.
\<close>

theorem provider_tasks_witness:
  "(\<exists>this. new_RemixAppProject [''REMIX_RUN_LICENSE'' \<mapsto> ''token''] {} noOptions = Inr this
      \<and> deploymentProvider this = EXPRESS
      \<and> map fst (tasks this) = [''build'', ''dev'', ''start''])
   \<and> (\<exists>this. new_RemixAppProject Map.empty {''.npmrc''}
                (noOptions\<lparr>depolymentProvider := Some VERCEL\<rparr>) = Inr this
      \<and> deploymentProvider this = VERCEL
      \<and> map fst (tasks this) = [''predeploy'', ''deploy'', ''start''])"
proof -
  have "\<exists>a. new_RemixAppProject [''REMIX_RUN_LICENSE'' \<mapsto> ''token''] {} noOptions = Inr a"
    by (rule new_Inr_ex) simp
  then obtain a
    where a: "new_RemixAppProject [''REMIX_RUN_LICENSE'' \<mapsto> ''token''] {} noOptions = Inr a" ..
  have pa: "deploymentProvider a = EXPRESS"
    using new_fields(1) [OF a] by (simp add: noOptions_def)
  have "\<exists>b. new_RemixAppProject Map.empty {''.npmrc''}
      (noOptions\<lparr>depolymentProvider := Some VERCEL\<rparr>) = Inr b"
    by (rule new_Inr_ex) simp
  then obtain b where b: "new_RemixAppProject Map.empty {''.npmrc''}
      (noOptions\<lparr>depolymentProvider := Some VERCEL\<rparr>) = Inr b" ..
  have pb: "deploymentProvider b = VERCEL"
    using new_fields(1) [OF b] by simp
  have ta: "map fst (tasks a) = [''build'', ''dev'', ''start'']"
    using provider_tasks [OF a] pa by simp
  have tb: "map fst (tasks b) = [''predeploy'', ''deploy'', ''start'']"
    using provider_tasks [OF b] pb by simp
  show ?thesis
    by (intro conjI exI [of _ a] exI [of _ b]) (fact a b pa pb ta tb)+
qed

subsection \<open>C3: the defaults\<close>

text \<open>
  C3. When none of the eight optional fields is supplied, the project the constructor
  returns has \<open>remixVersion = "0.13.1"\<close>, provider \<open>EXPRESS\<close>,
  \<open>appDirectory = "app"\<close>, \<open>browserBuildDirectory = "public/build"\<close>,
  \<open>publicPath = "/build/"\<close>, \<open>serverBuildDirectory = "build"\<close>,
  \<open>devServerPort = 8002\<close> and \<open>tailwind = false\<close>.
\<close>

theorem resolved_defaults:
  assumes "RemixAppProjectOptions.remixVersion options = None"
    and "depolymentProvider options = None"
    and "RemixAppProjectOptions.appDirectory options = None"
    and "RemixAppProjectOptions.browserBuildDirectory options = None"
    and "RemixAppProjectOptions.publicPath options = None"
    and "RemixAppProjectOptions.serverBuildDirectory options = None"
    and "RemixAppProjectOptions.devServerPort options = None"
    and "RemixAppProjectOptions.tailwind options = None"
    and "new_RemixAppProject env fs options = Inr this"
  shows "RemixAppProject.remixVersion this = ''0.13.1''
       \<and> deploymentProvider this = EXPRESS
       \<and> RemixAppProject.appDirectory this = ''app''
       \<and> RemixAppProject.browserBuildDirectory this = ''public/build''
       \<and> RemixAppProject.publicPath this = ''/build/''
       \<and> RemixAppProject.serverBuildDirectory this = ''build''
       \<and> RemixAppProject.devServerPort this = 8002
       \<and> RemixAppProject.tailwind this = False"
  using new_fields [OF assms(9)] assms(1-8) by simp

text \<open>
  The options object with no field supplied, under an environment with a token.
\<close>

theorem resolved_defaults_witness:
  "\<exists>this. new_RemixAppProject [''REMIX_RUN_LICENSE'' \<mapsto> ''token''] {} noOptions = Inr this
     \<and> RemixAppProject.remixVersion this = ''0.13.1''
     \<and> deploymentProvider this = EXPRESS
     \<and> RemixAppProject.appDirectory this = ''app''
     \<and> RemixAppProject.browserBuildDirectory this = ''public/build''
     \<and> RemixAppProject.publicPath this = ''/build/''
     \<and> RemixAppProject.serverBuildDirectory this = ''build''
     \<and> RemixAppProject.devServerPort this = 8002
     \<and> RemixAppProject.tailwind this = False"
proof -
  have "\<exists>a. new_RemixAppProject [''REMIX_RUN_LICENSE'' \<mapsto> ''token''] {} noOptions = Inr a"
    by (rule new_Inr_ex) simp
  then obtain a
    where a: "new_RemixAppProject [''REMIX_RUN_LICENSE'' \<mapsto> ''token''] {} noOptions = Inr a" ..
  have "RemixAppProjectOptions.remixVersion noOptions = None"
    "depolymentProvider noOptions = None"
    "RemixAppProjectOptions.appDirectory noOptions = None"
    "RemixAppProjectOptions.browserBuildDirectory noOptions = None"
    "RemixAppProjectOptions.publicPath noOptions = None"
    "RemixAppProjectOptions.serverBuildDirectory noOptions = None"
    "RemixAppProjectOptions.devServerPort noOptions = None"
    "RemixAppProjectOptions.tailwind noOptions = None"
    by (simp_all add: noOptions_def)
  from resolved_defaults [OF this a] show ?thesis
    by (intro exI [of _ a] conjI) (simp_all only: a)
qed

subsection \<open>C4: a supplied value overrides its default\<close>

text \<open>
  C4. Each field of the project the constructor returns is the supplied value when one
  is supplied, whatever the value (zero, the empty string and false included), and the
  default only when none is; each field is read from its own option alone.
\<close>

theorem supplied_overrides_default:
  assumes "new_RemixAppProject env fs options = Inr this"
  shows "RemixAppProject.remixVersion this =
           (case RemixAppProjectOptions.remixVersion options of
              Some v \<Rightarrow> v | None \<Rightarrow> ''0.13.1'')
       \<and> deploymentProvider this =
           (case depolymentProvider options of Some v \<Rightarrow> v | None \<Rightarrow> EXPRESS)
       \<and> RemixAppProject.appDirectory this =
           (case RemixAppProjectOptions.appDirectory options of
              Some v \<Rightarrow> v | None \<Rightarrow> ''app'')
       \<and> RemixAppProject.browserBuildDirectory this =
           (case RemixAppProjectOptions.browserBuildDirectory options of
              Some v \<Rightarrow> v | None \<Rightarrow> ''public/build'')
       \<and> RemixAppProject.publicPath this =
           (case RemixAppProjectOptions.publicPath options of
              Some v \<Rightarrow> v | None \<Rightarrow> ''/build/'')
       \<and> RemixAppProject.serverBuildDirectory this =
           (case RemixAppProjectOptions.serverBuildDirectory options of
              Some v \<Rightarrow> v | None \<Rightarrow> ''build'')
       \<and> RemixAppProject.devServerPort this =
           (case RemixAppProjectOptions.devServerPort options of
              Some v \<Rightarrow> v | None \<Rightarrow> 8002)
       \<and> RemixAppProject.tailwind this =
           (case RemixAppProjectOptions.tailwind options of
              Some v \<Rightarrow> v | None \<Rightarrow> False)"
  using new_fields [OF assms] by simp

text \<open>
  Falsy values supplied: the empty string, the port 0 and false are kept, and a field
  that is not supplied (\<open>publicPath\<close>) takes its default.
\<close>

theorem supplied_overrides_default_witness:
  "\<exists>this. new_RemixAppProject [''REMIX_RUN_LICENSE'' \<mapsto> ''token''] {}
       (noOptions\<lparr> RemixAppProjectOptions.remixVersion := Some '''',
                    RemixAppProjectOptions.appDirectory := Some '''',
                    RemixAppProjectOptions.devServerPort := Some 0,
                    RemixAppProjectOptions.tailwind := Some False \<rparr>) = Inr this
     \<and> RemixAppProject.remixVersion this = ''''
     \<and> RemixAppProject.appDirectory this = ''''
     \<and> RemixAppProject.devServerPort this = 0
     \<and> RemixAppProject.tailwind this = False
     \<and> RemixAppProject.publicPath this = ''/build/''"
proof -
  have "\<exists>a. new_RemixAppProject [''REMIX_RUN_LICENSE'' \<mapsto> ''token''] {}
       (noOptions\<lparr> RemixAppProjectOptions.remixVersion := Some '''',
                    RemixAppProjectOptions.appDirectory := Some '''',
                    RemixAppProjectOptions.devServerPort := Some 0,
                    RemixAppProjectOptions.tailwind := Some False \<rparr>) = Inr a"
    by (rule new_Inr_ex) simp
  then obtain a where a: "new_RemixAppProject [''REMIX_RUN_LICENSE'' \<mapsto> ''token''] {}
       (noOptions\<lparr> RemixAppProjectOptions.remixVersion := Some '''',
                    RemixAppProjectOptions.appDirectory := Some '''',
                    RemixAppProjectOptions.devServerPort := Some 0,
                    RemixAppProjectOptions.tailwind := Some False \<rparr>) = Inr a" ..
  have "RemixAppProject.remixVersion a = ''''
     \<and> RemixAppProject.appDirectory a = ''''
     \<and> RemixAppProject.devServerPort a = 0
     \<and> RemixAppProject.tailwind a = False
     \<and> RemixAppProject.publicPath a = ''/build/''"
    using supplied_overrides_default [OF a] by (simp add: noOptions_def)
  with a show ?thesis by (intro exI [of _ a]) (rule conjI)
qed

subsection \<open>C5: one provider branch\<close>

text \<open>
  C5. On every project the constructor returns the provider is \<open>EXPRESS\<close> or
  \<open>VERCEL\<close>, and the branch of that provider, and only that branch, has run. Under
  \<open>EXPRESS\<close> the runtime dependencies are those of \<open>addRemixDeps\<close> followed by
  \<open>@remix-run/express\<close> at the resolved version, \<open>express\<close> and \<open>morgan\<close>,
  the development dependencies are the two type declarations and \<open>pm2\<close>, the
  \<open>Pm2ConfigFile\<close> is among the files, and the tasks are \<open>build\<close>, \<open>dev\<close> and
  \<open>start\<close>; no registered dependency begins with the name of a \<open>VERCEL\<close> package
  (\<open>@remix-run/vercel\<close>, \<open>@vercel/node\<close>, \<open>vercel\<close>, \<open>concurrently\<close>)
  and no task is named \<open>predeploy\<close> or \<open>deploy\<close>. Under \<open>VERCEL\<close> the runtime
  dependencies are those of \<open>addRemixDeps\<close> followed by \<open>@remix-run/vercel\<close> at the
  resolved version and \<open>@vercel/node@1.8.3\<close>, the development dependencies are the
  two type declarations, \<open>vercel\<close> and \<open>concurrently\<close>, and the tasks are
  \<open>predeploy\<close>, \<open>deploy\<close> and \<open>start\<close>; no registered dependency begins with
  the name of an \<open>EXPRESS\<close> package (\<open>@remix-run/express\<close>, \<open>express\<close>,
  \<open>morgan\<close>, \<open>pm2\<close>), the \<open>Pm2ConfigFile\<close> is not among the files, and no
  task is named \<open>build\<close> or \<open>dev\<close>.
\<close>

theorem one_provider_branch:
  assumes "new_RemixAppProject env fs options = Inr this"
  shows "(deploymentProvider this = EXPRESS \<or> deploymentProvider this = VERCEL)
       \<and> (deploymentProvider this = EXPRESS \<longrightarrow>
            deps this =
              [ ''@remix-run/cli@'' @ RemixAppProject.remixVersion this,
                ''@remix-run/data@'' @ RemixAppProject.remixVersion this,
                ''@remix-run/react@'' @ RemixAppProject.remixVersion this,
                ''react'', ''react-dom'', ''react-router@^6.0.0-beta.0'',
                ''react-router-dom@^6.0.0-beta.0'',
                ''@remix-run/express@'' @ RemixAppProject.remixVersion this,
                ''express'', ''morgan'' ]
            \<and> devDeps this = [''@types/react'', ''@types/react-dom'', ''pm2'']
            \<and> Pm2ConfigFile \<in> set (files this)
            \<and> map fst (tasks this) = [''build'', ''dev'', ''start'']
            \<and> (\<forall>d \<in> set (deps this @ devDeps this).
               \<not> prefix ''@remix-run/vercel'' d \<and> \<not> prefix ''@vercel/node'' d
               \<and> \<not> prefix ''vercel'' d \<and> \<not> prefix ''concurrently'' d)
            \<and> ''predeploy'' \<notin> fst ` set (tasks this)
            \<and> ''deploy'' \<notin> fst ` set (tasks this))
       \<and> (deploymentProvider this = VERCEL \<longrightarrow>
            deps this =
              [ ''@remix-run/cli@'' @ RemixAppProject.remixVersion this,
                ''@remix-run/data@'' @ RemixAppProject.remixVersion this,
                ''@remix-run/react@'' @ RemixAppProject.remixVersion this,
                ''react'', ''react-dom'', ''react-router@^6.0.0-beta.0'',
                ''react-router-dom@^6.0.0-beta.0'',
                ''@remix-run/vercel@'' @ RemixAppProject.remixVersion this,
                ''@vercel/node@1.8.3'' ]
            \<and> devDeps this =
                [''@types/react'', ''@types/react-dom'', ''vercel'', ''concurrently'']
            \<and> map fst (tasks this) = [''predeploy'', ''deploy'', ''start'']
            \<and> (\<forall>d \<in> set (deps this @ devDeps this).
               \<not> prefix ''@remix-run/express'' d \<and> \<not> prefix ''express'' d
               \<and> \<not> prefix ''morgan'' d \<and> \<not> prefix ''pm2'' d)
            \<and> Pm2ConfigFile \<notin> set (files this)
            \<and> ''pm2.config.js'' \<notin> filePath ` set (files this)
            \<and> ''build'' \<notin> fst ` set (tasks this)
            \<and> ''dev'' \<notin> fst ` set (tasks this))"
proof (intro conjI impI)
  show "deploymentProvider this = EXPRESS \<or> deploymentProvider this = VERCEL"
    by (cases "deploymentProvider this") simp_all
next
  assume e: "deploymentProvider this = EXPRESS"
  show "deps this =
              [ ''@remix-run/cli@'' @ RemixAppProject.remixVersion this,
                ''@remix-run/data@'' @ RemixAppProject.remixVersion this,
                ''@remix-run/react@'' @ RemixAppProject.remixVersion this,
                ''react'', ''react-dom'', ''react-router@^6.0.0-beta.0'',
                ''react-router-dom@^6.0.0-beta.0'',
                ''@remix-run/express@'' @ RemixAppProject.remixVersion this,
                ''express'', ''morgan'' ]"
    by (simp add: new_deps [OF assms] e)
  show "devDeps this = [''@types/react'', ''@types/react-dom'', ''pm2'']"
    by (simp add: new_devDeps [OF assms] e)
  show "Pm2ConfigFile \<in> set (files this)"
    by (simp add: new_files [OF assms] e)
  show "map fst (tasks this) = [''build'', ''dev'', ''start'']"
    by (simp add: new_tasks [OF assms] e)
  show "\<forall>d \<in> set (deps this @ devDeps this).
               \<not> prefix ''@remix-run/vercel'' d \<and> \<not> prefix ''@vercel/node'' d
               \<and> \<not> prefix ''vercel'' d \<and> \<not> prefix ''concurrently'' d"
    by (simp add: new_deps [OF assms] new_devDeps [OF assms] e)
  show "''predeploy'' \<notin> fst ` set (tasks this)"
    by (simp add: new_tasks [OF assms] e)
  show "''deploy'' \<notin> fst ` set (tasks this)"
    by (simp add: new_tasks [OF assms] e)
next
  assume v: "deploymentProvider this = VERCEL"
  show "deps this =
              [ ''@remix-run/cli@'' @ RemixAppProject.remixVersion this,
                ''@remix-run/data@'' @ RemixAppProject.remixVersion this,
                ''@remix-run/react@'' @ RemixAppProject.remixVersion this,
                ''react'', ''react-dom'', ''react-router@^6.0.0-beta.0'',
                ''react-router-dom@^6.0.0-beta.0'',
                ''@remix-run/vercel@'' @ RemixAppProject.remixVersion this,
                ''@vercel/node@1.8.3'' ]"
    by (simp add: new_deps [OF assms] v)
  show "devDeps this = [''@types/react'', ''@types/react-dom'', ''vercel'', ''concurrently'']"
    by (simp add: new_devDeps [OF assms] v)
  show "map fst (tasks this) = [''predeploy'', ''deploy'', ''start'']"
    by (simp add: new_tasks [OF assms] v)
  show "\<forall>d \<in> set (deps this @ devDeps this).
               \<not> prefix ''@remix-run/express'' d \<and> \<not> prefix ''express'' d
               \<and> \<not> prefix ''morgan'' d \<and> \<not> prefix ''pm2'' d"
    by (simp add: new_deps [OF assms] new_devDeps [OF assms] v)
  show "Pm2ConfigFile \<notin> set (files this)"
    by (simp add: new_files [OF assms] new_remixConfigFile [OF assms] v)
  show "''pm2.config.js'' \<notin> filePath ` set (files this)"
    by (cases "truthy (env ''REMIX_RUN_LICENSE'')")
      (simp_all add: new_files [OF assms] new_remixConfigFile [OF assms] v)
  show "''build'' \<notin> fst ` set (tasks this)"
    by (simp add: new_tasks [OF assms] v)
  show "''dev'' \<notin> fst ` set (tasks this)"
    by (simp add: new_tasks [OF assms] v)
qed

text \<open>Both providers, each on a construction that succeeds.\<close>

theorem one_provider_branch_witness:
  "(\<exists>this. new_RemixAppProject [''REMIX_RUN_LICENSE'' \<mapsto> ''token''] {} noOptions = Inr this
      \<and> deploymentProvider this = EXPRESS
      \<and> devDeps this = [''@types/react'', ''@types/react-dom'', ''pm2'']
      \<and> Pm2ConfigFile \<in> set (files this)
      \<and> map fst (tasks this) = [''build'', ''dev'', ''start''])
   \<and> (\<exists>this. new_RemixAppProject Map.empty {''.npmrc''}
                (noOptions\<lparr>depolymentProvider := Some VERCEL\<rparr>) = Inr this
      \<and> deploymentProvider this = VERCEL
      \<and> devDeps this = [''@types/react'', ''@types/react-dom'', ''vercel'', ''concurrently'']
      \<and> map fst (tasks this) = [''predeploy'', ''deploy'', ''start'']
      \<and> Pm2ConfigFile \<notin> set (files this))"
proof -
  have "\<exists>a. new_RemixAppProject [''REMIX_RUN_LICENSE'' \<mapsto> ''token''] {} noOptions = Inr a"
    by (rule new_Inr_ex) simp
  then obtain a
    where a: "new_RemixAppProject [''REMIX_RUN_LICENSE'' \<mapsto> ''token''] {} noOptions = Inr a" ..
  have pa: "deploymentProvider a = EXPRESS"
    using new_fields(1) [OF a] by (simp add: noOptions_def)
  have "\<exists>b. new_RemixAppProject Map.empty {''.npmrc''}
      (noOptions\<lparr>depolymentProvider := Some VERCEL\<rparr>) = Inr b"
    by (rule new_Inr_ex) simp
  then obtain b where b: "new_RemixAppProject Map.empty {''.npmrc''}
      (noOptions\<lparr>depolymentProvider := Some VERCEL\<rparr>) = Inr b" ..
  have pb: "deploymentProvider b = VERCEL"
    using new_fields(1) [OF b] by simp
  note ea = one_provider_branch [OF a, THEN conjunct2, THEN conjunct1, THEN mp, OF pa]
  note eb = one_provider_branch [OF b, THEN conjunct2, THEN conjunct2, THEN mp, OF pb]
  have a1: "devDeps a = [''@types/react'', ''@types/react-dom'', ''pm2'']"
    by (rule ea [THEN conjunct2, THEN conjunct1])
  have a2: "Pm2ConfigFile \<in> set (files a)"
    by (rule ea [THEN conjunct2, THEN conjunct2, THEN conjunct1])
  have a3: "map fst (tasks a) = [''build'', ''dev'', ''start'']"
    by (rule ea [THEN conjunct2, THEN conjunct2, THEN conjunct2, THEN conjunct1])
  have b1: "devDeps b = [''@types/react'', ''@types/react-dom'', ''vercel'', ''concurrently'']"
    by (rule eb [THEN conjunct2, THEN conjunct1])
  have b2: "map fst (tasks b) = [''predeploy'', ''deploy'', ''start'']"
    by (rule eb [THEN conjunct2, THEN conjunct2, THEN conjunct1])
  have b3: "Pm2ConfigFile \<notin> set (files b)"
    by (rule eb [THEN conjunct2, THEN conjunct2, THEN conjunct2, THEN conjunct2,
          THEN conjunct1])
  show ?thesis
    by (intro conjI exI [of _ a] exI [of _ b]) (fact a b pa pb a1 a2 a3 b1 b2 b3)+
qed

subsection \<open>C6: the git-ignore entries\<close>

text \<open>
  C6. On every project the constructor returns, the patterns passed to
  \<open>gitignore.exclude\<close> are the heading \<open># Remix\<close> and \<open>/\<close> followed by the
  resolved \<open>browserBuildDirectory\<close>, then the heading again and \<open>/\<close> followed by
  the resolved \<open>serverBuildDirectory\<close>; the entries, the patterns that are not
  comment lines, are exactly these two paths.
\<close>

theorem gitignore_entries:
  assumes "new_RemixAppProject env fs options = Inr this"
  shows "gitignore this =
           [ ''# Remix'', ''/'' @ RemixAppProject.browserBuildDirectory this,
             ''# Remix'', ''/'' @ RemixAppProject.serverBuildDirectory this ]
       \<and> ignoreEntries (gitignore this) =
           [ ''/'' @ RemixAppProject.browserBuildDirectory this,
             ''/'' @ RemixAppProject.serverBuildDirectory this ]"
  by (simp add: new_gitignore [OF assms] ignoreEntries_def isComment_def)

text \<open>
  With the default directories.
\<close>

theorem gitignore_entries_witness:
  "\<exists>this. new_RemixAppProject [''REMIX_RUN_LICENSE'' \<mapsto> ''token''] {} noOptions = Inr this
     \<and> gitignore this = [''# Remix'', ''/public/build'', ''# Remix'', ''/build'']
     \<and> ignoreEntries (gitignore this) = [''/public/build'', ''/build'']"
proof -
  have "\<exists>a. new_RemixAppProject [''REMIX_RUN_LICENSE'' \<mapsto> ''token''] {} noOptions = Inr a"
    by (rule new_Inr_ex) simp
  then obtain a
    where a: "new_RemixAppProject [''REMIX_RUN_LICENSE'' \<mapsto> ''token''] {} noOptions = Inr a" ..
  have bb: "RemixAppProject.browserBuildDirectory a = ''public/build''"
    and sb: "RemixAppProject.serverBuildDirectory a = ''build''"
    using new_fields(3,5) [OF a] by (simp_all add: noOptions_def)
  have g1: "gitignore a = [''# Remix'', ''/public/build'', ''# Remix'', ''/build'']"
    using gitignore_entries [OF a, THEN conjunct1] by (simp only: bb sb append.simps)
  have g2: "ignoreEntries (gitignore a) = [''/public/build'', ''/build'']"
    using gitignore_entries [OF a, THEN conjunct2] by (simp only: bb sb append.simps)
  show ?thesis
    by (intro exI [of _ a] conjI) (fact a g1 g2)+
qed

subsection \<open>C7: the generated framework configuration\<close>

text \<open>
  C7. For every number-to-string conversion and every options record, the text of
  \<open>createRemixConfig\<close> holds each of the five fields as its name, a colon and the
  value as it is: the four strings between single quotes, nothing escaped, and the port
  as the conversion prints it. With the four strings fixed, the text before and after
  the printed port of the \<open>devServerPort\<close> line is the same for every port and every
  conversion: two records that differ in the port alone give texts that differ in the
  printed port alone.
\<close>

theorem config_text_fields:
  "sublist (''  appDirectory: '' @ [CHR 0x27] @ RemixConfigFileOptions.appDirectory options
              @ [CHR 0x27] @ '',\<newline>'')
           (createRemixConfig toString options)
   \<and> sublist (''  browserBuildDirectory: '' @ [CHR 0x27]
              @ RemixConfigFileOptions.browserBuildDirectory options @ [CHR 0x27] @ '',\<newline>'')
           (createRemixConfig toString options)
   \<and> sublist (''  publicPath: '' @ [CHR 0x27] @ RemixConfigFileOptions.publicPath options
              @ [CHR 0x27] @ '',\<newline>'')
           (createRemixConfig toString options)
   \<and> sublist (''  serverBuildDirectory: '' @ [CHR 0x27]
              @ RemixConfigFileOptions.serverBuildDirectory options @ [CHR 0x27] @ '',\<newline>'')
           (createRemixConfig toString options)
   \<and> sublist (''  devServerPort: ''
              @ toString (RemixConfigFileOptions.devServerPort options) @ ''\<newline>'')
           (createRemixConfig toString options)
   \<and> (\<exists>pre post. \<forall>toString port.
         createRemixConfig toString
           \<lparr> RemixConfigFileOptions.appDirectory = app,
             RemixConfigFileOptions.browserBuildDirectory = browser,
             RemixConfigFileOptions.publicPath = url,
             RemixConfigFileOptions.serverBuildDirectory = server,
             RemixConfigFileOptions.devServerPort = port \<rparr>
         = pre @ ''  devServerPort: '' @ toString port @ post)
   \<and> (createRemixConfig toString
           \<lparr> RemixConfigFileOptions.appDirectory = app,
             RemixConfigFileOptions.browserBuildDirectory = browser,
             RemixConfigFileOptions.publicPath = url,
             RemixConfigFileOptions.serverBuildDirectory = server,
             RemixConfigFileOptions.devServerPort = p \<rparr>
         = createRemixConfig toString
           \<lparr> RemixConfigFileOptions.appDirectory = app,
             RemixConfigFileOptions.browserBuildDirectory = browser,
             RemixConfigFileOptions.publicPath = url,
             RemixConfigFileOptions.serverBuildDirectory = server,
             RemixConfigFileOptions.devServerPort = q \<rparr>)
       = (toString p = toString q)"
proof (intro conjI)
  show "sublist (''  appDirectory: '' @ [CHR 0x27] @ RemixConfigFileOptions.appDirectory options
              @ [CHR 0x27] @ '',\<newline>'')
           (createRemixConfig toString options)"
    unfolding createRemixConfig_def by (rule sublist_here5 | rule sublist_skip)+
  show "sublist (''  browserBuildDirectory: '' @ [CHR 0x27]
              @ RemixConfigFileOptions.browserBuildDirectory options @ [CHR 0x27] @ '',\<newline>'')
           (createRemixConfig toString options)"
    unfolding createRemixConfig_def by (rule sublist_here5 | rule sublist_skip)+
  show "sublist (''  publicPath: '' @ [CHR 0x27] @ RemixConfigFileOptions.publicPath options
              @ [CHR 0x27] @ '',\<newline>'')
           (createRemixConfig toString options)"
    unfolding createRemixConfig_def by (rule sublist_here5 | rule sublist_skip)+
  show "sublist (''  serverBuildDirectory: '' @ [CHR 0x27]
              @ RemixConfigFileOptions.serverBuildDirectory options @ [CHR 0x27] @ '',\<newline>'')
           (createRemixConfig toString options)"
    unfolding createRemixConfig_def by (rule sublist_here5 | rule sublist_skip)+
  show "sublist (''  devServerPort: ''
              @ toString (RemixConfigFileOptions.devServerPort options) @ ''\<newline>'')
           (createRemixConfig toString options)"
    unfolding createRemixConfig_def by (rule sublist_here3 | rule sublist_skip)+
  show "\<exists>pre post. \<forall>toString port.
         createRemixConfig toString
           \<lparr> RemixConfigFileOptions.appDirectory = app,
             RemixConfigFileOptions.browserBuildDirectory = browser,
             RemixConfigFileOptions.publicPath = url,
             RemixConfigFileOptions.serverBuildDirectory = server,
             RemixConfigFileOptions.devServerPort = port \<rparr>
         = pre @ ''  devServerPort: '' @ toString port @ post"
    by (rule createRemixConfig_frame)
  show "(createRemixConfig toString
           \<lparr> RemixConfigFileOptions.appDirectory = app,
             RemixConfigFileOptions.browserBuildDirectory = browser,
             RemixConfigFileOptions.publicPath = url,
             RemixConfigFileOptions.serverBuildDirectory = server,
             RemixConfigFileOptions.devServerPort = p \<rparr>
         = createRemixConfig toString
           \<lparr> RemixConfigFileOptions.appDirectory = app,
             RemixConfigFileOptions.browserBuildDirectory = browser,
             RemixConfigFileOptions.publicPath = url,
             RemixConfigFileOptions.serverBuildDirectory = server,
             RemixConfigFileOptions.devServerPort = q \<rparr>)
       = (toString p = toString q)"
    by (rule createRemixConfig_port_eq)
qed

text \<open>
  Two ports under the conversion on the ports: the port line reads
  \<open>devServerPort: 3000\<close> for the port 3000 and \<open>devServerPort: 8002\<close> for the
  default layout, and the default layout with the port 3000 gives another text than
  with the port 8002.
\<close>

theorem config_text_fields_witness:
  "sublist ''  devServerPort: 3000\<newline>''
     (createRemixConfig portToString
        \<lparr> RemixConfigFileOptions.appDirectory = ''src'',
          RemixConfigFileOptions.browserBuildDirectory = ''public/build'',
          RemixConfigFileOptions.publicPath = ''/build/'',
          RemixConfigFileOptions.serverBuildDirectory = ''build'',
          RemixConfigFileOptions.devServerPort = 3000 \<rparr>)
   \<and> sublist ''  appDirectory: 'src',\<newline>''
     (createRemixConfig portToString
        \<lparr> RemixConfigFileOptions.appDirectory = ''src'',
          RemixConfigFileOptions.browserBuildDirectory = ''public/build'',
          RemixConfigFileOptions.publicPath = ''/build/'',
          RemixConfigFileOptions.serverBuildDirectory = ''build'',
          RemixConfigFileOptions.devServerPort = 3000 \<rparr>)
   \<and> sublist ''  devServerPort: 8002\<newline>''
     (createRemixConfig portToString
        \<lparr> RemixConfigFileOptions.appDirectory = ''app'',
          RemixConfigFileOptions.browserBuildDirectory = ''public/build'',
          RemixConfigFileOptions.publicPath = ''/build/'',
          RemixConfigFileOptions.serverBuildDirectory = ''build'',
          RemixConfigFileOptions.devServerPort = 8002 \<rparr>)
   \<and> createRemixConfig portToString
        \<lparr> RemixConfigFileOptions.appDirectory = ''app'',
          RemixConfigFileOptions.browserBuildDirectory = ''public/build'',
          RemixConfigFileOptions.publicPath = ''/build/'',
          RemixConfigFileOptions.serverBuildDirectory = ''build'',
          RemixConfigFileOptions.devServerPort = 3000 \<rparr>
     \<noteq> createRemixConfig portToString
        \<lparr> RemixConfigFileOptions.appDirectory = ''app'',
          RemixConfigFileOptions.browserBuildDirectory = ''public/build'',
          RemixConfigFileOptions.publicPath = ''/build/'',
          RemixConfigFileOptions.serverBuildDirectory = ''build'',
          RemixConfigFileOptions.devServerPort = 8002 \<rparr>"
proof -
  have n: "portToString 3000 = ''3000''" "portToString 8002 = ''8002''"
    by (simp_all add: portToString_def decimal.simps)
  have d: "createRemixConfig portToString
        \<lparr> RemixConfigFileOptions.appDirectory = ''app'',
          RemixConfigFileOptions.browserBuildDirectory = ''public/build'',
          RemixConfigFileOptions.publicPath = ''/build/'',
          RemixConfigFileOptions.serverBuildDirectory = ''build'',
          RemixConfigFileOptions.devServerPort = 3000 \<rparr>
     \<noteq> createRemixConfig portToString
        \<lparr> RemixConfigFileOptions.appDirectory = ''app'',
          RemixConfigFileOptions.browserBuildDirectory = ''public/build'',
          RemixConfigFileOptions.publicPath = ''/build/'',
          RemixConfigFileOptions.serverBuildDirectory = ''build'',
          RemixConfigFileOptions.devServerPort = 8002 \<rparr>"
    using config_text_fields [where toString = portToString and app = "''app''"
        and browser = "''public/build''" and url = "''/build/''"
        and server = "''build''" and p = 3000 and q = 8002,
        THEN conjunct2, THEN conjunct2, THEN conjunct2, THEN conjunct2, THEN conjunct2,
        THEN conjunct2]
    by (simp only: n) simp
  have a: "sublist ''  devServerPort: 3000\<newline>''
     (createRemixConfig portToString
        \<lparr> RemixConfigFileOptions.appDirectory = ''src'',
          RemixConfigFileOptions.browserBuildDirectory = ''public/build'',
          RemixConfigFileOptions.publicPath = ''/build/'',
          RemixConfigFileOptions.serverBuildDirectory = ''build'',
          RemixConfigFileOptions.devServerPort = 3000 \<rparr>)"
    using config_text_fields [where toString = portToString and options =
        "\<lparr> RemixConfigFileOptions.appDirectory = ''src'',
          RemixConfigFileOptions.browserBuildDirectory = ''public/build'',
          RemixConfigFileOptions.publicPath = ''/build/'',
          RemixConfigFileOptions.serverBuildDirectory = ''build'',
          RemixConfigFileOptions.devServerPort = 3000 \<rparr>",
        THEN conjunct2, THEN conjunct2, THEN conjunct2, THEN conjunct2, THEN conjunct1]
    by (simp add: n)
  have b: "sublist ''  appDirectory: 'src',\<newline>''
     (createRemixConfig portToString
        \<lparr> RemixConfigFileOptions.appDirectory = ''src'',
          RemixConfigFileOptions.browserBuildDirectory = ''public/build'',
          RemixConfigFileOptions.publicPath = ''/build/'',
          RemixConfigFileOptions.serverBuildDirectory = ''build'',
          RemixConfigFileOptions.devServerPort = 3000 \<rparr>)"
    using config_text_fields [where toString = portToString and options =
        "\<lparr> RemixConfigFileOptions.appDirectory = ''src'',
          RemixConfigFileOptions.browserBuildDirectory = ''public/build'',
          RemixConfigFileOptions.publicPath = ''/build/'',
          RemixConfigFileOptions.serverBuildDirectory = ''build'',
          RemixConfigFileOptions.devServerPort = 3000 \<rparr>",
        THEN conjunct1]
    by simp
  have c: "sublist ''  devServerPort: 8002\<newline>''
     (createRemixConfig portToString
        \<lparr> RemixConfigFileOptions.appDirectory = ''app'',
          RemixConfigFileOptions.browserBuildDirectory = ''public/build'',
          RemixConfigFileOptions.publicPath = ''/build/'',
          RemixConfigFileOptions.serverBuildDirectory = ''build'',
          RemixConfigFileOptions.devServerPort = 8002 \<rparr>)"
    using config_text_fields [where toString = portToString and options =
        "\<lparr> RemixConfigFileOptions.appDirectory = ''app'',
          RemixConfigFileOptions.browserBuildDirectory = ''public/build'',
          RemixConfigFileOptions.publicPath = ''/build/'',
          RemixConfigFileOptions.serverBuildDirectory = ''build'',
          RemixConfigFileOptions.devServerPort = 8002 \<rparr>",
        THEN conjunct2, THEN conjunct2, THEN conjunct2, THEN conjunct2, THEN conjunct1]
    by (simp add: n)
  from a b c d show ?thesis by (intro conjI)
qed
subsection \<open>C8: the same dependencies with a token or with the file\<close>

text \<open>
  C8. Let one environment hold a token that is not empty, and let another have no
  token and a file system where \<open>.npmrc\<close> exists. From any project, the credential
  bootstrap succeeds under both and leaves the same runtime dependencies: those before,
  then \<open>@remix-run/cli\<close>, \<open>@remix-run/data\<close> and \<open>@remix-run/react\<close> at the
  resolved version, \<open>react\<close>, \<open>react-dom\<close>, and \<open>react-router\<close> and
  \<open>react-router-dom\<close> at \<open>^6.0.0-beta.0\<close>; under the second it adds no file. So
  the two constructions return projects with the same runtime dependencies, and the
  second has no file at \<open>.npmrc\<close>.
\<close>

theorem existing_file_same_dependencies:
  assumes "env ''REMIX_RUN_LICENSE'' = Some tok" and "tok \<noteq> []"
    and "env' ''REMIX_RUN_LICENSE'' = None" and "existsSync fs' ''.npmrc''"
  shows "(\<exists>a b. credentials env fs this = Inr a \<and> credentials env' fs' this = Inr b
            \<and> deps b = deps a
            \<and> deps b = deps this @
                [ ''@remix-run/cli@'' @ RemixAppProject.remixVersion this,
                  ''@remix-run/data@'' @ RemixAppProject.remixVersion this,
                  ''@remix-run/react@'' @ RemixAppProject.remixVersion this,
                  ''react'', ''react-dom'', ''react-router@^6.0.0-beta.0'',
                  ''react-router-dom@^6.0.0-beta.0'' ]
            \<and> files b = files this)
       \<and> (\<exists>a b. new_RemixAppProject env fs options = Inr a
            \<and> new_RemixAppProject env' fs' options = Inr b
            \<and> deps b = deps a
            \<and> take 7 (deps b) =
                [ ''@remix-run/cli@'' @ RemixAppProject.remixVersion b,
                  ''@remix-run/data@'' @ RemixAppProject.remixVersion b,
                  ''@remix-run/react@'' @ RemixAppProject.remixVersion b,
                  ''react'', ''react-dom'', ''react-router@^6.0.0-beta.0'',
                  ''react-router-dom@^6.0.0-beta.0'' ]
            \<and> ''.npmrc'' \<notin> filePath ` set (files b))"
proof (rule conjI)
  have f: "\<not> truthy (env' ''REMIX_RUN_LICENSE'')"
    using assms(3) by simp
  show "\<exists>a b. credentials env fs this = Inr a \<and> credentials env' fs' this = Inr b
            \<and> deps b = deps a
            \<and> deps b = deps this @
                [ ''@remix-run/cli@'' @ RemixAppProject.remixVersion this,
                  ''@remix-run/data@'' @ RemixAppProject.remixVersion this,
                  ''@remix-run/react@'' @ RemixAppProject.remixVersion this,
                  ''react'', ''react-dom'', ''react-router@^6.0.0-beta.0'',
                  ''react-router-dom@^6.0.0-beta.0'' ]
            \<and> files b = files this"
    using assms(1,2,4) f
    by (simp add: credentials_token credentials_file addRemixDeps_sel addRemixDeps_deps
        newFile_sel)
  have t: "truthy (env ''REMIX_RUN_LICENSE'')"
    using assms(1,2) by simp
  then have "\<exists>a. new_RemixAppProject env fs options = Inr a"
    by (intro new_Inr_ex) simp
  then obtain a where a: "new_RemixAppProject env fs options = Inr a" ..
  have "\<exists>b. new_RemixAppProject env' fs' options = Inr b"
    using assms(4) by (intro new_Inr_ex) (simp add: existsSync_def)
  then obtain b where b: "new_RemixAppProject env' fs' options = Inr b" ..
  have v: "RemixAppProject.remixVersion a = RemixAppProject.remixVersion b"
    and p: "deploymentProvider a = deploymentProvider b"
    by (simp_all add: new_fields [OF a] new_fields [OF b])
  have d: "deps b = deps a"
    by (simp add: new_deps [OF a] new_deps [OF b] v p)
  have s: "take 7 (deps b) =
                [ ''@remix-run/cli@'' @ RemixAppProject.remixVersion b,
                  ''@remix-run/data@'' @ RemixAppProject.remixVersion b,
                  ''@remix-run/react@'' @ RemixAppProject.remixVersion b,
                  ''react'', ''react-dom'', ''react-router@^6.0.0-beta.0'',
                  ''react-router-dom@^6.0.0-beta.0'' ]"
    by (simp add: new_deps [OF b])
  have n: "''.npmrc'' \<notin> filePath ` set (files b)"
    by (cases "deploymentProvider b")
      (simp_all add: new_files [OF b] new_remixConfigFile [OF b] f)
  show "\<exists>a b. new_RemixAppProject env fs options = Inr a
            \<and> new_RemixAppProject env' fs' options = Inr b
            \<and> deps b = deps a
            \<and> take 7 (deps b) =
                [ ''@remix-run/cli@'' @ RemixAppProject.remixVersion b,
                  ''@remix-run/data@'' @ RemixAppProject.remixVersion b,
                  ''@remix-run/react@'' @ RemixAppProject.remixVersion b,
                  ''react'', ''react-dom'', ''react-router@^6.0.0-beta.0'',
                  ''react-router-dom@^6.0.0-beta.0'' ]
            \<and> ''.npmrc'' \<notin> filePath ` set (files b)"
    by (intro exI [of _ a] exI [of _ b] conjI) (fact a b d s n)+
qed

text \<open>
  A token and no file against no token and the file.
\<close>

theorem existing_file_same_dependencies_witness:
  "\<exists>a b. new_RemixAppProject [''REMIX_RUN_LICENSE'' \<mapsto> ''token''] {} noOptions = Inr a
     \<and> new_RemixAppProject Map.empty {''.npmrc''} noOptions = Inr b
     \<and> deps b = deps a
     \<and> ''.npmrc'' \<notin> filePath ` set (files b)"
proof -
  have "\<exists>a b. new_RemixAppProject [''REMIX_RUN_LICENSE'' \<mapsto> ''token''] {} noOptions = Inr a
     \<and> new_RemixAppProject Map.empty {''.npmrc''} noOptions = Inr b
     \<and> deps b = deps a
     \<and> take 7 (deps b) =
                [ ''@remix-run/cli@'' @ RemixAppProject.remixVersion b,
                  ''@remix-run/data@'' @ RemixAppProject.remixVersion b,
                  ''@remix-run/react@'' @ RemixAppProject.remixVersion b,
                  ''react'', ''react-dom'', ''react-router@^6.0.0-beta.0'',
                  ''react-router-dom@^6.0.0-beta.0'' ]
     \<and> ''.npmrc'' \<notin> filePath ` set (files b)"
    by (rule existing_file_same_dependencies
          [where env = "[''REMIX_RUN_LICENSE'' \<mapsto> ''token'']" and tok = "''token''"
             and env' = Map.empty and fs' = "{''.npmrc''}" and fs = "{}"
             and options = noOptions and this = "initialise noOptions", THEN conjunct2])
      (simp_all add: existsSync_def)
  then obtain a b
    where "new_RemixAppProject [''REMIX_RUN_LICENSE'' \<mapsto> ''token''] {} noOptions = Inr a"
      and "new_RemixAppProject Map.empty {''.npmrc''} noOptions = Inr b"
      and "deps b = deps a"
      and "''.npmrc'' \<notin> filePath ` set (files b)"
    by (elim exE conjE)
  then show ?thesis
    by (intro exI [of _ a] exI [of _ b] conjI)
qed

subsection \<open>C9: an empty token\<close>

text \<open>
  C9. When \<open>REMIX_RUN_LICENSE\<close> is set to the empty string the constructor does
  what it does when the variable is unset: it throws when \<open>.npmrc\<close> does not exist,
  and when the file exists it returns a project with no \<open>TextFile\<close> and no file at
  \<open>.npmrc\<close> among its files.
\<close>

theorem empty_token_is_absent:
  assumes "env ''REMIX_RUN_LICENSE'' = Some []"
  shows "new_RemixAppProject env fs options =
           new_RemixAppProject (env(''REMIX_RUN_LICENSE'' := None)) fs options
       \<and> (\<not> existsSync fs ''.npmrc'' \<longrightarrow>
            new_RemixAppProject env fs options =
              Inl (Error ''Environment variable REMIX_RUN_LICENSE not set''))
       \<and> (existsSync fs ''.npmrc'' \<longrightarrow>
            (\<exists>this. new_RemixAppProject env fs options = Inr this
               \<and> ''.npmrc'' \<notin> filePath ` set (files this)
               \<and> (\<forall>f \<in> set (files this). \<forall>p opts. f \<noteq> TextFile p opts)))"
proof (intro conjI impI)
  have f: "\<not> truthy (env ''REMIX_RUN_LICENSE'')"
    using assms by simp
  show "new_RemixAppProject env fs options =
           new_RemixAppProject (env(''REMIX_RUN_LICENSE'' := None)) fs options"
    using assms by (simp add: new_RemixAppProject_def credentials_def)
  show "new_RemixAppProject env fs options =
              Inl (Error ''Environment variable REMIX_RUN_LICENSE not set'')"
    if "\<not> existsSync fs ''.npmrc''"
    using that f by (simp add: new_Inl_iff existsSync_def)
  show "\<exists>this. new_RemixAppProject env fs options = Inr this
               \<and> ''.npmrc'' \<notin> filePath ` set (files this)
               \<and> (\<forall>f \<in> set (files this). \<forall>p opts. f \<noteq> TextFile p opts)"
    if e: "existsSync fs ''.npmrc''"
  proof -
    have "\<exists>a. new_RemixAppProject env fs options = Inr a"
      using e by (intro new_Inr_ex) (simp add: existsSync_def)
    then obtain a where a: "new_RemixAppProject env fs options = Inr a" ..
    have n: "''.npmrc'' \<notin> filePath ` set (files a)"
      by (cases "deploymentProvider a")
        (simp_all add: new_files [OF a] new_remixConfigFile [OF a] f)
    have m: "\<forall>f \<in> set (files a). \<forall>p opts. f \<noteq> TextFile p opts"
      by (cases "deploymentProvider a")
        (simp_all add: new_files [OF a] new_remixConfigFile [OF a] f)
    show ?thesis
      by (intro exI [of _ a] conjI) (fact a n m)+
  qed
qed

text \<open>
  The empty token without the file, and with it.
\<close>

theorem empty_token_is_absent_witness:
  "new_RemixAppProject [''REMIX_RUN_LICENSE'' \<mapsto> ''''] {} noOptions =
     Inl (Error ''Environment variable REMIX_RUN_LICENSE not set'')
   \<and> new_RemixAppProject [''REMIX_RUN_LICENSE'' \<mapsto> ''''] {''.npmrc''} noOptions =
       new_RemixAppProject Map.empty {''.npmrc''} noOptions
   \<and> (\<exists>this. new_RemixAppProject [''REMIX_RUN_LICENSE'' \<mapsto> ''''] {''.npmrc''} noOptions
               = Inr this
          \<and> ''.npmrc'' \<notin> filePath ` set (files this))"
proof -
  have e: "[''REMIX_RUN_LICENSE'' \<mapsto> ''''] ''REMIX_RUN_LICENSE'' = Some []"
    by simp
  have u: "[''REMIX_RUN_LICENSE'' \<mapsto> ''''](''REMIX_RUN_LICENSE'' := None) = Map.empty"
    by simp
  have 1: "new_RemixAppProject [''REMIX_RUN_LICENSE'' \<mapsto> ''''] {} noOptions =
     Inl (Error ''Environment variable REMIX_RUN_LICENSE not set'')"
  proof -
    have "\<not> existsSync {} ''.npmrc''"
      by (simp add: existsSync_def)
    then show ?thesis
      by (rule empty_token_is_absent [where env = "[''REMIX_RUN_LICENSE'' \<mapsto> '''']" and fs = "{}"
            and options = noOptions, OF e, THEN conjunct2, THEN conjunct1, THEN mp])
  qed
  have 2: "new_RemixAppProject [''REMIX_RUN_LICENSE'' \<mapsto> ''''] {''.npmrc''} noOptions =
       new_RemixAppProject Map.empty {''.npmrc''} noOptions"
    using empty_token_is_absent [where env = "[''REMIX_RUN_LICENSE'' \<mapsto> '''']" and fs = "{''.npmrc''}"
        and options = noOptions, OF e, THEN conjunct1]
    by (simp only: u)
  have "existsSync {''.npmrc''} ''.npmrc''"
    by (simp add: existsSync_def)
  then have "\<exists>this. new_RemixAppProject [''REMIX_RUN_LICENSE'' \<mapsto> ''''] {''.npmrc''} noOptions
               = Inr this
          \<and> ''.npmrc'' \<notin> filePath ` set (files this)
          \<and> (\<forall>f \<in> set (files this). \<forall>p opts. f \<noteq> TextFile p opts)"
    by (rule empty_token_is_absent [where env = "[''REMIX_RUN_LICENSE'' \<mapsto> '''']" and fs = "{''.npmrc''}"
          and options = noOptions, OF e, THEN conjunct2, THEN conjunct2, THEN mp])
  then obtain a
    where "new_RemixAppProject [''REMIX_RUN_LICENSE'' \<mapsto> ''''] {''.npmrc''} noOptions = Inr a"
      and "''.npmrc'' \<notin> filePath ` set (files a)"
    by (elim exE conjE)
  then have 3: "\<exists>this. new_RemixAppProject [''REMIX_RUN_LICENSE'' \<mapsto> ''''] {''.npmrc''} noOptions
               = Inr this
          \<and> ''.npmrc'' \<notin> filePath ` set (files this)"
    by (intro exI [of _ a] conjI)
  from 1 2 3 show ?thesis by (intro conjI)
qed

subsection \<open>C10: the credentials file written from the token\<close>

text \<open>
  C10. When \<open>REMIX_RUN_LICENSE\<close> is set and not empty, the constructor returns a
  project whose one file at \<open>.npmrc\<close> is a \<open>TextFile\<close>, not committed and not
  read-only, of exactly two lines: \<open>//npm.remix.run/:_authToken=\<close> followed by the
  value of the variable as it is, and \<open>@remix-run:registry=https://npm.remix.run\<close>.
\<close>

theorem npmrc_from_token:
  assumes "env ''REMIX_RUN_LICENSE'' = Some tok" and "tok \<noteq> []"
  shows "\<exists>this. new_RemixAppProject env fs options = Inr this
     \<and> filter (\<lambda>f. filePath f = ''.npmrc'') (files this) =
         [ TextFile ''.npmrc''
             \<lparr> committed = False, readonly = False,
               lines = [ ''//npm.remix.run/:_authToken='' @ tok,
                         ''@remix-run:registry=https://npm.remix.run'' ] \<rparr> ]"
proof -
  have t: "truthy (env ''REMIX_RUN_LICENSE'')"
    using assms by simp
  then have "\<exists>a. new_RemixAppProject env fs options = Inr a"
    by (intro new_Inr_ex) simp
  then obtain a where a: "new_RemixAppProject env fs options = Inr a" ..
  have "filter (\<lambda>f. filePath f = ''.npmrc'') (files a) =
         [ TextFile ''.npmrc''
             \<lparr> committed = False, readonly = False,
               lines = [ ''//npm.remix.run/:_authToken='' @ tok,
                         ''@remix-run:registry=https://npm.remix.run'' ] \<rparr> ]"
    by (cases "deploymentProvider a")
      (simp_all add: new_files [OF a] new_remixConfigFile [OF a] assms)
  with a show ?thesis by (intro exI [of _ a]) (rule conjI)
qed

text \<open>
  The token \<open>token\<close>.
\<close>

theorem npmrc_from_token_witness:
  "\<exists>this. new_RemixAppProject [''REMIX_RUN_LICENSE'' \<mapsto> ''token''] {} noOptions = Inr this
     \<and> filter (\<lambda>f. filePath f = ''.npmrc'') (files this) =
         [ TextFile ''.npmrc''
             \<lparr> committed = False, readonly = False,
               lines = [ ''//npm.remix.run/:_authToken=token'',
                         ''@remix-run:registry=https://npm.remix.run'' ] \<rparr> ]"
proof -
  have e: "[''REMIX_RUN_LICENSE'' \<mapsto> ''token''] ''REMIX_RUN_LICENSE'' = Some ''token''"
    by simp
  have n: "''token'' \<noteq> []"
    by simp
  show ?thesis
    using npmrc_from_token [where env = "[''REMIX_RUN_LICENSE'' \<mapsto> ''token'']"
        and tok = "''token''" and fs = "{}" and options = noOptions, OF e n] by (simp only: append.simps)
qed

end
